theory Spec2Isabelle
  imports Complex_Main "HOL-Library.AList" "HOL-Library.Sublist"
begin

section \<open>Conventions of the embedding\<close>

text \<open>
  The program is the Python event-coordination engine: the session state machine
  (\<^verbatim>\<open>models/coordination_session.py\<close>), the agent substrate
  (\<^verbatim>\<open>agents/base_agent.py\<close>), the dependency-ordered scheduler
  (\<^verbatim>\<open>agents/coordination_agent.py\<close>), the time-slot optimizer
  (\<^verbatim>\<open>agents/scheduling_agent.py\<close>) and the multi-source venue search
  (\<^verbatim>\<open>agents/venue_agent.py\<close>, \<^verbatim>\<open>models/venue.py\<close>).

  \<^item> A naive UTC \<^verbatim>\<open>datetime\<close> is the number of microseconds since 1970-01-01T00:00:00;
    comparison and subtraction of datetimes are comparison and subtraction of these integers.
    Every method that reads \<^verbatim>\<open>datetime.utcnow()\<close> takes the reading as its argument
    \<open>now\<close>; the readings taken inside one call are identified.
  \<^item> A value produced by \<^verbatim>\<open>uuid4()\<close> is an argument of the method that draws it.
  \<^item> A \<^verbatim>\<open>Dict[str, Any]\<close> is an association list of JSON-like values; a dictionary
    built by insertion is built with \<open>AList.update\<close>, which keeps Python's insertion order
    and overwrites in place.
  \<^item> The texts the program formats for logs and subjects are Japanese f-strings; an entry is
    kept as the template it instantiates together with the values it interpolates.
  \<^item> Python \<^verbatim>\<open>float\<close> arithmetic is modelled by exact rational arithmetic.
\<close>

type_synonym datetime = int

datatype pyval =
    PNone
  | PBool bool
  | PInt int
  | PStr string
  | PList "pyval list"
  | PDict "(string \<times> pyval) list"

type_synonym pydict = "(string \<times> pyval) list"

text \<open>Python truthiness of an optional string and of an optional dictionary.\<close>

fun truthy_str :: "string option \<Rightarrow> bool" where
  "truthy_str None = False"
| "truthy_str (Some t) = (t \<noteq> [])"

fun truthy_dict :: "pydict option \<Rightarrow> bool" where
  "truthy_dict None = False"
| "truthy_dict (Some d) = (d \<noteq> [])"

text \<open>
  The loop shape \<^verbatim>\<open>for x in xs: if P(x): mutate(x); return True\<close> followed by
  \<^verbatim>\<open>return False\<close>: the first element satisfying the test is updated in place;
  \<open>None\<close> is the fall-through.
\<close>

fun update_first :: "('a \<Rightarrow> bool) \<Rightarrow> ('a \<Rightarrow> 'a) \<Rightarrow> 'a list \<Rightarrow> 'a list option" where
  "update_first P f [] = None"
| "update_first P f (x # xs) =
     (if P x then Some (f x # xs)
      else (case update_first P f xs of None \<Rightarrow> None | Some ys \<Rightarrow> Some (x # ys)))"


section \<open>The coordination session (models/coordination_session.py)\<close>

datatype CoordinationPhase =
    INITIALIZATION
  | PARTICIPANT_COLLECTION
  | SCHEDULE_COORDINATION
  | VENUE_COORDINATION
  | CALENDAR_INTEGRATION
  | FINAL_CONFIRMATION
  | ANNOUNCEMENT
  | PHASE_COMPLETED

datatype AgentStatus = IDLE | ACTIVE | WAITING | COMPLETED | ERROR | TIMEOUT

record ErrorEntry =
  error_timestamp :: datetime
  error_agent_name :: string
  error_type :: string
  error_message :: string
  stack_trace :: "string option"
  context_data :: pydict
  recovery_action :: "string option"
  resolved :: bool

record AgentInstance =
  agent_name :: string
  agent_id :: string
  status :: AgentStatus
  started_at :: "datetime option"
  completed_at :: "datetime option"
  last_heartbeat :: "datetime option"
  current_task :: "string option"
  progress_percentage :: int
  result_data :: pydict
  error_count :: int

text \<open>The description handed to \<^verbatim>\<open>create_checkpoint\<close>: the phase-transition template
  \<^verbatim>\<open>f"... {previous_phase} -> {new_phase}"\<close> or any other text.\<close>

datatype description =
    Phase_transition "CoordinationPhase option" CoordinationPhase
  | Description string

record WorkflowCheckpoint =
  checkpoint_id :: string
  phase :: CoordinationPhase
  checkpoint_timestamp :: datetime
  data_snapshot :: pydict
  agent_states :: "(string \<times> (AgentStatus \<times> int \<times> string option)) list"
  decision_points :: "description list"

text \<open>The messages \<^verbatim>\<open>log_activity\<close> receives, one constructor per f-string of the class.\<close>

datatype activity =
    Agent_added string string
  | Agent_started string "string option"
  | Agent_completed string
  | Error_occurred string string string
  | Checkpoint_created description
  | Session_paused string
  | Session_resumed
  | Activity string

text \<open>
  The fields of \<^verbatim>\<open>CoordinationSession\<close> that its methods read or write. The remaining
  fields (confirmation settings, automation level, conversation context, shared state, ...)
  are written by no method of the class; they live in the extension part of the record, so
  every function below leaves them as they are.
\<close>

record CoordinationSession =
  session_id :: string
  session_event_id :: string
  current_phase :: CoordinationPhase
  previous_phase :: "CoordinationPhase option"
  active_agents :: "AgentInstance list"
  completed_agents :: "string list"
  workflow_data :: pydict
  error_log :: "ErrorEntry list"
  activity_log :: "(datetime \<times> activity) list"
  last_activity :: datetime
  checkpoints :: "WorkflowCheckpoint list"
  updated_at :: datetime
  session_expires_at :: "datetime option"
  is_paused :: bool
  pause_reason :: "string option"

definition update_timestamp ::
  "datetime \<Rightarrow> 'a CoordinationSession_scheme \<Rightarrow> 'a CoordinationSession_scheme" where
  "update_timestamp now s = s\<lparr>updated_at := now, last_activity := now\<rparr>"

text \<open>\<^verbatim>\<open>log_activity\<close>: append, then keep the newest 1000 entries.\<close>

definition log_activity ::
  "datetime \<Rightarrow> activity \<Rightarrow> 'a CoordinationSession_scheme \<Rightarrow> 'a CoordinationSession_scheme" where
  "log_activity now message s =
     (let l = activity_log s @ [(now, message)]
      in s\<lparr>activity_log := (if length l > 1000 then drop (length l - 1000) l else l)\<rparr>)"

text \<open>The dictionary comprehension of \<^verbatim>\<open>create_checkpoint\<close>: one entry per agent name,
  a later instance of the same name overwriting the earlier one.\<close>

definition snapshot_agents ::
  "AgentInstance list \<Rightarrow> (string \<times> (AgentStatus \<times> int \<times> string option)) list" where
  "snapshot_agents agents =
     fold (\<lambda>a m. AList.update (agent_name a) (status a, progress_percentage a, current_task a) m)
       agents []"

definition create_checkpoint ::
  "datetime \<Rightarrow> string \<Rightarrow> description \<Rightarrow> 'a CoordinationSession_scheme
    \<Rightarrow> 'a CoordinationSession_scheme" where
  "create_checkpoint now uuid d s =
     (let checkpoint = \<lparr>checkpoint_id = uuid, phase = current_phase s,
            checkpoint_timestamp = now, data_snapshot = workflow_data s,
            agent_states = snapshot_agents (active_agents s), decision_points = [d]\<rparr>
      in log_activity now (Checkpoint_created d) (s\<lparr>checkpoints := checkpoints s @ [checkpoint]\<rparr>))"

text \<open>The table \<^verbatim>\<open>valid_transitions\<close> of \<^verbatim>\<open>transition_to_phase\<close>.\<close>

fun valid_transitions :: "CoordinationPhase \<Rightarrow> CoordinationPhase list" where
  "valid_transitions INITIALIZATION = [PARTICIPANT_COLLECTION]"
| "valid_transitions PARTICIPANT_COLLECTION = [SCHEDULE_COORDINATION]"
| "valid_transitions SCHEDULE_COORDINATION = [VENUE_COORDINATION, CALENDAR_INTEGRATION]"
| "valid_transitions VENUE_COORDINATION = [CALENDAR_INTEGRATION]"
| "valid_transitions CALENDAR_INTEGRATION = [FINAL_CONFIRMATION]"
| "valid_transitions FINAL_CONFIRMATION = [ANNOUNCEMENT]"
| "valid_transitions ANNOUNCEMENT = [PHASE_COMPLETED]"
| "valid_transitions PHASE_COMPLETED = []"

definition transition_to_phase ::
  "datetime \<Rightarrow> string \<Rightarrow> CoordinationPhase \<Rightarrow> 'a CoordinationSession_scheme
    \<Rightarrow> bool \<times> 'a CoordinationSession_scheme" where
  "transition_to_phase now uuid new_phase s =
     (if new_phase \<in> set (valid_transitions (current_phase s)) then
        let s1 = s\<lparr>previous_phase := Some (current_phase s)\<rparr>;
            s2 = s1\<lparr>current_phase := new_phase\<rparr>;
            s3 = create_checkpoint now uuid (Phase_transition (previous_phase s2) new_phase) s2;
            s4 = update_timestamp now s3
        in (True, s4)
      else (False, s))"

definition add_agent ::
  "datetime \<Rightarrow> string \<Rightarrow> string \<Rightarrow> 'a CoordinationSession_scheme
    \<Rightarrow> string \<times> 'a CoordinationSession_scheme" where
  "add_agent now uuid name s =
     (let agent = \<lparr>agent_name = name, agent_id = uuid, status = IDLE, started_at = None,
            completed_at = None, last_heartbeat = None, current_task = None,
            progress_percentage = 0, result_data = [], error_count = 0\<rparr>;
          s1 = s\<lparr>active_agents := active_agents s @ [agent]\<rparr>;
          s2 = log_activity now (Agent_added name (agent_id agent)) s1
      in (agent_id agent, update_timestamp now s2))"

definition start_agent ::
  "datetime \<Rightarrow> string \<Rightarrow> string option \<Rightarrow> 'a CoordinationSession_scheme
    \<Rightarrow> bool \<times> 'a CoordinationSession_scheme" where
  "start_agent now name task s =
     (case update_first (\<lambda>a. agent_name a = name \<and> status a = IDLE)
             (\<lambda>a. a\<lparr>status := ACTIVE, started_at := Some now, last_heartbeat := Some now,
                     current_task := (if truthy_str task then task else current_task a)\<rparr>)
             (active_agents s) of
        Some agents \<Rightarrow>
          (True, update_timestamp now
             (log_activity now (Agent_started name (if truthy_str task then task else None))
                (s\<lparr>active_agents := agents\<rparr>)))
      | None \<Rightarrow> (False, s))"

definition complete_agent ::
  "datetime \<Rightarrow> string \<Rightarrow> pydict option \<Rightarrow> 'a CoordinationSession_scheme
    \<Rightarrow> bool \<times> 'a CoordinationSession_scheme" where
  "complete_agent now name result s =
     (case update_first (\<lambda>a. agent_name a = name \<and> status a = ACTIVE)
             (\<lambda>a. a\<lparr>status := COMPLETED, completed_at := Some now, progress_percentage := 100,
                     result_data := (case result of
                                       Some d \<Rightarrow> if d \<noteq> [] then d else result_data a
                                     | None \<Rightarrow> result_data a)\<rparr>)
             (active_agents s) of
        Some agents \<Rightarrow>
          (True, update_timestamp now
             (log_activity now (Agent_completed name)
                (s\<lparr>active_agents := agents, completed_agents := completed_agents s @ [name]\<rparr>)))
      | None \<Rightarrow> (False, s))"

definition log_error ::
  "datetime \<Rightarrow> string \<Rightarrow> string \<Rightarrow> string \<Rightarrow> pydict option \<Rightarrow> string option
    \<Rightarrow> 'a CoordinationSession_scheme \<Rightarrow> 'a CoordinationSession_scheme" where
  "log_error now name etype msg ctx trace s =
     (let error_entry = \<lparr>error_timestamp = now, error_agent_name = name, error_type = etype,
            error_message = msg, stack_trace = trace,
            context_data = (case ctx of Some d \<Rightarrow> d | None \<Rightarrow> []),
            recovery_action = None, resolved = False\<rparr>;
          s1 = s\<lparr>error_log := error_log s @ [error_entry]\<rparr>;
          s2 = log_activity now (Error_occurred name etype msg) s1
      in update_timestamp now s2)"

definition fail_agent ::
  "datetime \<Rightarrow> string \<Rightarrow> string \<Rightarrow> 'a CoordinationSession_scheme
    \<Rightarrow> bool \<times> 'a CoordinationSession_scheme" where
  "fail_agent now name msg s =
     (case update_first (\<lambda>a. agent_name a = name)
             (\<lambda>a. a\<lparr>status := ERROR, error_count := error_count a + 1\<rparr>)
             (active_agents s) of
        Some agents \<Rightarrow>
          (True, update_timestamp now
             (log_error now name ''AgentError'' msg None None (s\<lparr>active_agents := agents\<rparr>)))
      | None \<Rightarrow> (False, s))"

definition update_agent_progress ::
  "datetime \<Rightarrow> string \<Rightarrow> int \<Rightarrow> string option \<Rightarrow> 'a CoordinationSession_scheme
    \<Rightarrow> bool \<times> 'a CoordinationSession_scheme" where
  "update_agent_progress now name progress task s =
     (case update_first (\<lambda>a. agent_name a = name \<and> status a = ACTIVE)
             (\<lambda>a. a\<lparr>progress_percentage := progress, last_heartbeat := Some now,
                     current_task := (if truthy_str task then task else current_task a)\<rparr>)
             (active_agents s) of
        Some agents \<Rightarrow> (True, update_timestamp now (s\<lparr>active_agents := agents\<rparr>))
      | None \<Rightarrow> (False, s))"

definition pause_session ::
  "datetime \<Rightarrow> string \<Rightarrow> 'a CoordinationSession_scheme \<Rightarrow> 'a CoordinationSession_scheme" where
  "pause_session now reason s =
     update_timestamp now
       (log_activity now (Session_paused reason) (s\<lparr>is_paused := True, pause_reason := Some reason\<rparr>))"

definition resume_session ::
  "datetime \<Rightarrow> 'a CoordinationSession_scheme \<Rightarrow> 'a CoordinationSession_scheme" where
  "resume_session now s =
     update_timestamp now
       (log_activity now Session_resumed (s\<lparr>is_paused := False, pause_reason := None\<rparr>))"

text \<open>
  The mutating methods of the class as one type of operations, and a run of operations:
  each step is the method call with its arguments, its return value dropped.
\<close>

datatype session_op =
    Update_timestamp datetime
  | Transition_to_phase datetime string CoordinationPhase
  | Add_agent datetime string string
  | Start_agent datetime string "string option"
  | Complete_agent datetime string "pydict option"
  | Fail_agent datetime string string
  | Update_agent_progress datetime string int "string option"
  | Log_error datetime string string string "pydict option" "string option"
  | Log_activity datetime activity
  | Create_checkpoint datetime string description
  | Pause_session datetime string
  | Resume_session datetime

fun apply_op :: "session_op \<Rightarrow> 'a CoordinationSession_scheme \<Rightarrow> 'a CoordinationSession_scheme" where
  "apply_op (Update_timestamp now) s = update_timestamp now s"
| "apply_op (Transition_to_phase now uuid p) s = snd (transition_to_phase now uuid p s)"
| "apply_op (Add_agent now uuid name) s = snd (add_agent now uuid name s)"
| "apply_op (Start_agent now name task) s = snd (start_agent now name task s)"
| "apply_op (Complete_agent now name result) s = snd (complete_agent now name result s)"
| "apply_op (Fail_agent now name msg) s = snd (fail_agent now name msg s)"
| "apply_op (Update_agent_progress now name progress task) s =
     snd (update_agent_progress now name progress task s)"
| "apply_op (Log_error now name etype msg ctx trace) s = log_error now name etype msg ctx trace s"
| "apply_op (Log_activity now message) s = log_activity now message s"
| "apply_op (Create_checkpoint now uuid d) s = create_checkpoint now uuid d s"
| "apply_op (Pause_session now reason) s = pause_session now reason s"
| "apply_op (Resume_session now) s = resume_session now s"

fun run_ops :: "session_op list \<Rightarrow> 'a CoordinationSession_scheme \<Rightarrow> 'a CoordinationSession_scheme" where
  "run_ops [] s = s"
| "run_ops (x # xs) s = run_ops xs (apply_op x s)"


text \<open>A session used to instantiate the theorems: two tracked agents, phase Announcement.\<close>

definition example_session :: CoordinationSession where
  "example_session =
     \<lparr>session_id = ''s1'', session_event_id = ''e1'', current_phase = ANNOUNCEMENT,
      previous_phase = Some FINAL_CONFIRMATION,
      active_agents =
        [\<lparr>agent_name = ''participant_agent'', agent_id = ''a1'', status = COMPLETED,
          started_at = Some 10, completed_at = Some 20, last_heartbeat = Some 10,
          current_task = None, progress_percentage = 100, result_data = [], error_count = 0\<rparr>,
         \<lparr>agent_name = ''scheduling_agent'', agent_id = ''a2'', status = ACTIVE,
          started_at = Some 30, completed_at = None, last_heartbeat = Some 30,
          current_task = Some ''optimize'', progress_percentage = 40, result_data = [],
          error_count = 0\<rparr>],
      completed_agents = [''participant_agent''], workflow_data = [(''k'', PInt 1)],
      error_log = [], activity_log = [], last_activity = 30, checkpoints = [],
      updated_at = 30, session_expires_at = None, is_paused = False, pause_reason = None\<rparr>"


section \<open>Messages (agents/base_agent.py)\<close>

datatype MessageType =
    COMMAND | QUERY | RESPONSE | EVENT | STATUS_UPDATE | ERROR_REPORT | HEARTBEAT

datatype MessagePriority = LOW | NORMAL | HIGH | URGENT

text \<open>The subject of a message: a plain text, or the template of the start command.\<close>

datatype subject = Subject string | Agent_start_subject string

record AgentMessage =
  message_id :: string
  sender_id :: string
  recipient_id :: "string option"
  message_type :: MessageType
  priority :: MessagePriority
  subject :: subject
  payload :: pydict
  correlation_id :: "string option"
  timestamp :: datetime
  expires_at :: "datetime option"
  retry_count :: int
  event_id :: "string option"
  session_id_of :: "string option"
  user_context :: pydict


section \<open>The agent substrate (agents/base_agent.py)\<close>

definition is_expired :: "datetime \<Rightarrow> 'a AgentMessage_scheme \<Rightarrow> bool" where
  "is_expired now m = (case expires_at m of None \<Rightarrow> False | Some e \<Rightarrow> now > e)"

record AgentMetrics =
  metrics_agent_id :: string
  messages_sent :: int
  messages_received :: int
  errors_count :: int
  total_processing_time_ms :: int
  metrics_last_activity :: "datetime option"
  uptime_seconds :: int

definition record_message_sent :: "datetime \<Rightarrow> AgentMetrics \<Rightarrow> AgentMetrics" where
  "record_message_sent now m =
     m\<lparr>messages_sent := messages_sent m + 1, metrics_last_activity := Some now\<rparr>"

definition record_message_received :: "datetime \<Rightarrow> AgentMetrics \<Rightarrow> AgentMetrics" where
  "record_message_received now m =
     m\<lparr>messages_received := messages_received m + 1, metrics_last_activity := Some now\<rparr>"

definition record_processing_time :: "datetime \<Rightarrow> int \<Rightarrow> AgentMetrics \<Rightarrow> AgentMetrics" where
  "record_processing_time now duration_ms m =
     m\<lparr>total_processing_time_ms := total_processing_time_ms m + duration_ms,
       metrics_last_activity := Some now\<rparr>"

text \<open>
  A handler is a callable the agent stores under a message type. The model keeps handlers
  by identity (\<open>'h\<close>); what a handler does when awaited on a message is given by the
  argument \<open>run\<close> of \<^verbatim>\<open>handle_message\<close>: it returns an optional response after some
  milliseconds, or raises. Each \<^verbatim>\<open>await handler(message)\<close> is recorded in \<open>invoked\<close>.

  The message bus is the list of messages published on it; whether one
  \<^verbatim>\<open>publish\<close> raises is the argument \<open>publish_ok\<close> of \<^verbatim>\<open>send_message\<close>.

  Both methods catch every exception and hand it to \<^verbatim>\<open>_handle_error\<close>. The model
  records the exception in \<open>raised\<close> and stops there: the error callbacks, the ERROR_REPORT
  that \<^verbatim>\<open>_handle_error\<close> sends and the error counter are not part of it.
\<close>

datatype handler_result = Handler_returned "AgentMessage option" int | Handler_raised string

record 'h BaseAgent =
  self_agent_id :: string
  self_event_id :: "string option"
  self_session_id :: "string option"
  metrics :: AgentMetrics
  message_handlers :: "MessageType \<rightharpoonup> 'h"
  pending_messages :: "AgentMessage list"
  message_bus :: "AgentMessage list option"
  invoked :: "('h \<times> AgentMessage) list"
  raised :: "string list"

definition register_handler :: "MessageType \<Rightarrow> 'h \<Rightarrow> 'h BaseAgent \<Rightarrow> 'h BaseAgent" where
  "register_handler t h ag = ag\<lparr>message_handlers := (message_handlers ag)(t \<mapsto> h)\<rparr>"

text \<open>The stamping at the head of \<^verbatim>\<open>send_message\<close>: the sender id is assigned; the event
  and session ids are assigned when the message's own is falsy and the agent's is truthy.\<close>

definition stamp :: "'h BaseAgent \<Rightarrow> AgentMessage \<Rightarrow> AgentMessage" where
  "stamp ag message =
     (let m1 = message\<lparr>sender_id := self_agent_id ag\<rparr>;
          m2 = (if \<not> truthy_str (event_id m1) \<and> truthy_str (self_event_id ag)
                then m1\<lparr>event_id := self_event_id ag\<rparr> else m1);
          m3 = (if \<not> truthy_str (session_id_of m2) \<and> truthy_str (self_session_id ag)
                then m2\<lparr>session_id_of := self_session_id ag\<rparr> else m2)
      in m3)"

text \<open>\<^verbatim>\<open>send_message\<close> returns nothing; the message object it was given is mutated, and the
  model returns it beside the agent.\<close>

definition send_message ::
  "datetime \<Rightarrow> bool \<Rightarrow> AgentMessage \<Rightarrow> 'h BaseAgent \<Rightarrow> AgentMessage \<times> 'h BaseAgent" where
  "send_message now publish_ok message ag =
     (let m = stamp ag message in
      case message_bus ag of
        Some published \<Rightarrow>
          if publish_ok
          then (m, ag\<lparr>message_bus := Some (published @ [m]),
                       metrics := record_message_sent now (metrics ag)\<rparr>)
          else (m, ag\<lparr>raised := raised ag @ [''publish'']\<rparr>)
      | None \<Rightarrow>
          (m, ag\<lparr>pending_messages := pending_messages ag @ [m],
                  metrics := record_message_sent now (metrics ag)\<rparr>))"

definition handle_message ::
  "datetime \<Rightarrow> ('h \<Rightarrow> AgentMessage \<Rightarrow> handler_result) \<Rightarrow> AgentMessage \<Rightarrow> 'h BaseAgent
    \<Rightarrow> AgentMessage option \<times> 'h BaseAgent" where
  "handle_message now run message ag =
     (if is_expired now message then (None, ag)
      else
        let ag1 = ag\<lparr>metrics := record_message_received now (metrics ag)\<rparr> in
        case message_handlers ag1 (message_type message) of
          Some handler \<Rightarrow>
            (let ag2 = ag1\<lparr>invoked := invoked ag1 @ [(handler, message)]\<rparr> in
             case run handler message of
               Handler_returned response duration_ms \<Rightarrow>
                 (response, ag2\<lparr>metrics := record_processing_time now duration_ms (metrics ag2)\<rparr>)
             | Handler_raised e \<Rightarrow> (None, ag2\<lparr>raised := raised ag2 @ [e]\<rparr>))
        | None \<Rightarrow> (None, ag1))"

text \<open>\<^verbatim>\<open>set_message_bus\<close> attaches the bus; the pending messages stay where they are.\<close>

definition set_message_bus :: "AgentMessage list \<Rightarrow> 'h BaseAgent \<Rightarrow> 'h BaseAgent" where
  "set_message_bus bus ag = ag\<lparr>message_bus := Some bus\<rparr>"

text \<open>An agent and messages used to instantiate the theorems: the agent answers queries
  with handler 1 and has no bus; the second message expired at time 500.\<close>

definition example_metrics :: AgentMetrics where
  "example_metrics =
     \<lparr>metrics_agent_id = ''venue_agent_e1'', messages_sent = 0, messages_received = 0,
      errors_count = 0, total_processing_time_ms = 0, metrics_last_activity = None,
      uptime_seconds = 0\<rparr>"

definition example_agent :: "nat BaseAgent" where
  "example_agent =
     \<lparr>self_agent_id = ''venue_agent_e1'', self_event_id = Some ''e1'',
      self_session_id = Some ''s1'', metrics = example_metrics,
      message_handlers = [QUERY \<mapsto> 1], pending_messages = [], message_bus = None,
      invoked = [], raised = []\<rparr>"

definition example_message :: AgentMessage where
  "example_message =
     \<lparr>message_id = ''m1'', sender_id = ''coordination_agent_e1'',
      recipient_id = Some ''venue_agent_e1'', message_type = QUERY, priority = NORMAL,
      subject = Subject ''status'', payload = [(''query_type'', PStr ''search_status'')],
      correlation_id = None, timestamp = 100, expires_at = None, retry_count = 0,
      event_id = Some ''e7'', session_id_of = None, user_context = []\<rparr>"

definition expired_message :: AgentMessage where
  "expired_message = example_message\<lparr>expires_at := Some 500\<rparr>"

definition example_run :: "nat \<Rightarrow> AgentMessage \<Rightarrow> handler_result" where
  "example_run h m = Handler_returned (Some (m\<lparr>message_type := RESPONSE\<rparr>)) 3"


section \<open>The dependency-ordered scheduler (agents/coordination_agent.py)\<close>

text \<open>
  \<^verbatim>\<open>managed_agents\<close> maps a name to an \<^verbatim>\<open>AgentInstance\<close> object, and registration puts
  the same object into the session's \<^verbatim>\<open>active_agents\<close>: a write through one is seen
  through the other. The session's list only grows at its end, so the position of an
  instance in that list serves as its address, and \<^verbatim>\<open>managed_agents\<close> maps a name to the
  position of the instance it refers to. \<open>outbox\<close> collects, in order, the messages handed to
  \<^verbatim>\<open>send_message\<close>.
\<close>

record CoordinationAgent =
  coord_agent_id :: string
  coord_event_id :: string
  coord_session_id :: string
  coordination_session :: CoordinationSession
  managed_agents :: "string \<rightharpoonup> nat"
  outbox :: "AgentMessage list"

text \<open>The references are well formed: each points at an instance of the session carrying
  the name it is stored under, as \<^verbatim>\<open>_handle_agent_registration\<close> builds them.\<close>

definition wf_managed :: "CoordinationAgent \<Rightarrow> bool" where
  "wf_managed ag \<longleftrightarrow>
     (\<forall>name i. managed_agents ag name = Some i \<longrightarrow>
        i < length (active_agents (coordination_session ag))
        \<and> agent_name (active_agents (coordination_session ag) ! i) = name)"

text \<open>The map \<^verbatim>\<open>agent_dependencies\<close>, read with \<^verbatim>\<open>.get(agent_name, [])\<close>.\<close>

definition agent_dependencies :: "string \<Rightarrow> string list" where
  "agent_dependencies name =
     (if name = ''participant_agent'' then []
      else if name = ''scheduling_agent'' then [''participant_agent'']
      else if name = ''venue_agent'' then [''scheduling_agent'']
      else if name = ''calendar_agent'' then [''scheduling_agent'', ''venue_agent'']
      else [])"

text \<open>The exceptions the models let escape: the store of sessions answers an update by
  accepting it or by raising; a division by zero; an attribute read on \<^verbatim>\<open>None\<close>.\<close>

datatype error = RepositoryError | ZeroDivisionError | AttributeError

text \<open>The registration of an agent, without the reply it builds: a fresh Idle instance is
  appended to the session and \<^verbatim>\<open>managed_agents[agent_name]\<close> refers to it.\<close>

definition register_agent :: "string \<Rightarrow> string \<Rightarrow> CoordinationAgent \<Rightarrow> CoordinationAgent" where
  "register_agent uuid name ag =
     (let s = coordination_session ag;
          agent_instance = \<lparr>agent_name = name, agent_id = uuid, status = IDLE, started_at = None,
            completed_at = None, last_heartbeat = None, current_task = None,
            progress_percentage = 0, result_data = [], error_count = 0\<rparr>
      in ag\<lparr>coordination_session := s\<lparr>active_agents := active_agents s @ [agent_instance]\<rparr>,
            managed_agents := (managed_agents ag)(name \<mapsto> length (active_agents s))\<rparr>)"

text \<open>The dependency loop of \<^verbatim>\<open>_start_agent\<close>: it stops at the first dependency that is
  unregistered or not Completed.\<close>

datatype dep_check = Deps_satisfied | Dep_unregistered string | Dep_not_completed string

fun check_dependencies ::
  "(string \<rightharpoonup> nat) \<Rightarrow> AgentInstance list \<Rightarrow> string list \<Rightarrow> dep_check" where
  "check_dependencies m agents [] = Deps_satisfied"
| "check_dependencies m agents (dep # deps) =
     (case m dep of
        None \<Rightarrow> Dep_unregistered dep
      | Some j \<Rightarrow>
          if status (agents ! j) \<noteq> COMPLETED then Dep_not_completed dep
          else check_dependencies m agents deps)"

definition start_command ::
  "datetime \<Rightarrow> string \<Rightarrow> string \<Rightarrow> string option \<Rightarrow> CoordinationAgent \<Rightarrow> AgentMessage" where
  "start_command now uuid name task ag =
     \<lparr>message_id = uuid, sender_id = coord_agent_id ag,
      recipient_id = Some (name @ ''_'' @ coord_event_id ag), message_type = COMMAND,
      priority = NORMAL, subject = Agent_start_subject name,
      payload = [(''command'', PStr ''start''),
                 (''task'', case task of None \<Rightarrow> PNone | Some t \<Rightarrow> PStr t),
                 (''event_id'', PStr (coord_event_id ag)),
                 (''session_id'', PStr (coord_session_id ag))],
      correlation_id = None, timestamp = now, expires_at = None, retry_count = 0,
      event_id = None, session_id_of = None, user_context = []\<rparr>"

text \<open>
  \<^verbatim>\<open>CoordinationAgent._start_agent\<close>. \<open>repo_ok\<close> is the answer of the session store to
  the one \<^verbatim>\<open>session_repository.update\<close> the call reaches; when the store raises, the
  exception leaves the method and the changes already made to the session stay.
\<close>

definition coord_start_agent ::
  "datetime \<Rightarrow> string \<Rightarrow> bool \<Rightarrow> string \<Rightarrow> string option \<Rightarrow> CoordinationAgent
    \<Rightarrow> (error + bool) \<times> CoordinationAgent" where
  "coord_start_agent now uuid repo_ok name task ag =
     (case managed_agents ag name of
        None \<Rightarrow> (Inr False, ag)
      | Some i \<Rightarrow>
          (let s = coordination_session ag in
           case check_dependencies (managed_agents ag) (active_agents s) (agent_dependencies name) of
             Dep_unregistered dep \<Rightarrow> (Inr False, ag)
           | Dep_not_completed dep \<Rightarrow>
               (let agents = (active_agents s)[i := (active_agents s ! i)\<lparr>status := WAITING\<rparr>];
                    ag1 = ag\<lparr>coordination_session := s\<lparr>active_agents := agents\<rparr>\<rparr>
                in if repo_ok then (Inr False, ag1) else (Inl RepositoryError, ag1))
           | Deps_satisfied \<Rightarrow>
               (case start_agent now name task s of
                  (True, s1) \<Rightarrow>
                    (let ag1 = ag\<lparr>coordination_session := s1\<rparr>
                     in if repo_ok
                        then (Inr True,
                              ag1\<lparr>outbox := outbox ag1 @ [start_command now uuid name task ag1]\<rparr>)
                        else (Inl RepositoryError, ag1))
                | (False, s1) \<Rightarrow> (Inr False, ag))))"

text \<open>The status of a dependency as \<^verbatim>\<open>_start_agent\<close> reads it: through
  \<^verbatim>\<open>managed_agents\<close>; an unregistered dependency has none.\<close>

definition dep_status :: "CoordinationAgent \<Rightarrow> string \<Rightarrow> AgentStatus option" where
  "dep_status ag dep =
     (case managed_agents ag dep of
        None \<Rightarrow> None
      | Some j \<Rightarrow> Some (status (active_agents (coordination_session ag) ! j)))"

text \<open>Coordinators used to instantiate the theorems. In the first, the participant
  agent is Completed, the scheduling agent Active, the venue agent Idle. In the others, the
  scheduling agent is Idle behind a Completed participant agent, and the calendar agent is
  registered while the scheduling agent it depends on is not managed.\<close>

definition tracked_instance :: "string \<Rightarrow> string \<Rightarrow> AgentStatus \<Rightarrow> AgentInstance" where
  "tracked_instance name uuid st =
     \<lparr>agent_name = name, agent_id = uuid, status = st, started_at = None,
      completed_at = None, last_heartbeat = None, current_task = None,
      progress_percentage = 0, result_data = [], error_count = 0\<rparr>"

definition example_coordinator :: CoordinationAgent where
  "example_coordinator =
     \<lparr>coord_agent_id = ''coordination_agent_e1'', coord_event_id = ''e1'',
      coord_session_id = ''s1'',
      coordination_session = example_session\<lparr>current_phase := VENUE_COORDINATION,
        active_agents := [tracked_instance ''participant_agent'' ''a1'' COMPLETED,
                          tracked_instance ''scheduling_agent'' ''a2'' ACTIVE,
                          tracked_instance ''venue_agent'' ''a3'' IDLE]\<rparr>,
      managed_agents = [''participant_agent'' \<mapsto> 0, ''scheduling_agent'' \<mapsto> 1,
                        ''venue_agent'' \<mapsto> 2],
      outbox = []\<rparr>"

definition ready_coordinator :: CoordinationAgent where
  "ready_coordinator =
     \<lparr>coord_agent_id = ''coordination_agent_e1'', coord_event_id = ''e1'',
      coord_session_id = ''s1'',
      coordination_session = example_session\<lparr>current_phase := SCHEDULE_COORDINATION,
        active_agents := [tracked_instance ''participant_agent'' ''a1'' COMPLETED,
                          tracked_instance ''scheduling_agent'' ''a2'' IDLE]\<rparr>,
      managed_agents = [''participant_agent'' \<mapsto> 0, ''scheduling_agent'' \<mapsto> 1],
      outbox = []\<rparr>"

definition calendar_coordinator :: CoordinationAgent where
  "calendar_coordinator =
     \<lparr>coord_agent_id = ''coordination_agent_e1'', coord_event_id = ''e1'',
      coord_session_id = ''s1'',
      coordination_session = example_session\<lparr>current_phase := CALENDAR_INTEGRATION,
        active_agents := [tracked_instance ''venue_agent'' ''a1'' ACTIVE,
                          tracked_instance ''calendar_agent'' ''a2'' IDLE]\<rparr>,
      managed_agents = [''venue_agent'' \<mapsto> 0, ''calendar_agent'' \<mapsto> 1],
      outbox = []\<rparr>"


section \<open>Venues and the multi-source search (models/venue.py, agents/venue_agent.py)\<close>

text \<open>
  The texts of this part are Japanese literals whose length in code points matters to the
  validators, and which are compared after \<^verbatim>\<open>str.lower()\<close>: a text is the list of its
  Unicode code points, and \<^verbatim>\<open>str.lower\<close> is the argument \<open>lower\<close> of the functions
  that need it.
\<close>

type_synonym pystr = "nat list"

datatype EventType = DINING | STUDY | MEETING

datatype VenueType = RESTAURANT | MEETING_ROOM | EXTERNAL

datatype BookingStatus = PENDING | CONFIRMED | FAILED | MANUAL_REQUIRED

record VenueFeature =
  feature_name :: pystr
  available :: bool
  feature_description :: "pystr option"

text \<open>
  The fields of \<^verbatim>\<open>Venue\<close> that the search reads or sets; the others keep their defaults.
  The validators of the class, which run at construction and at every assignment, keep
  \<open>1 \<le> capacity \<le> 10000\<close>.
\<close>

record Venue =
  venue_id :: string
  venue_event_id :: string
  venue_type :: VenueType
  venue_name :: pystr
  venue_address :: pystr
  capacity :: int
  minimum_capacity :: "int option"
  features :: "VenueFeature list"
  booking_status :: BookingStatus
  estimated_cost_per_person :: "int option"
  rating :: "rat option"
  wheelchair_accessible :: bool
  admin_notes :: "pystr option"

definition has_feature :: "(pystr \<Rightarrow> pystr) \<Rightarrow> Venue \<Rightarrow> pystr \<Rightarrow> bool" where
  "has_feature lower v f =
     list_ex (\<lambda>x. lower (feature_name x) = lower f \<and> available x) (features v)"

text \<open>The four parts of \<^verbatim>\<open>calculate_suitability_score\<close>, in the order the method computes
  them. The utilisation divides by the capacity.\<close>

definition capacity_score :: "Venue \<Rightarrow> int \<Rightarrow> error + rat" where
  "capacity_score v participant_count =
     (if (case minimum_capacity v of None \<Rightarrow> False
          | Some mc \<Rightarrow> mc \<noteq> 0 \<and> participant_count < mc) then Inr 0
      else if participant_count > capacity v then Inr 0
      else if capacity v = 0 then Inl ZeroDivisionError
      else
        let utilization = rat_of_int participant_count / rat_of_int (capacity v) in
        if 7 / 10 \<le> utilization \<and> utilization \<le> 8 / 10 then Inr 1
        else if utilization < 7 / 10 then Inr (utilization / (7 / 10))
        else Inr (max 0 (1 - (utilization - 8 / 10) / (2 / 10))))"

definition budget_score :: "Venue \<Rightarrow> int option \<Rightarrow> rat" where
  "budget_score v budget_per_person =
     (case (budget_per_person, estimated_cost_per_person v) of
        (Some b, Some c) \<Rightarrow>
          if b \<noteq> 0 \<and> c \<noteq> 0 then
            (if c \<le> b then 1
             else let over_ratio = rat_of_int c / rat_of_int b in max 0 (1 - (over_ratio - 1)))
          else 1
      | _ \<Rightarrow> 1)"

definition feature_score :: "(pystr \<Rightarrow> pystr) \<Rightarrow> Venue \<Rightarrow> pystr list option \<Rightarrow> rat" where
  "feature_score lower v required_features =
     (case required_features of
        None \<Rightarrow> 1
      | Some fs \<Rightarrow>
          if fs \<noteq> [] then
            rat_of_nat (length (filter (has_feature lower v) fs)) / rat_of_nat (length fs)
          else 1)"

definition rating_score :: "Venue \<Rightarrow> rat" where
  "rating_score v =
     (case rating v of
        None \<Rightarrow> 1 / 2
      | Some r \<Rightarrow> if r \<noteq> 0 then (r - 1) / 4 else 1 / 2)"

definition calculate_suitability_score ::
  "(pystr \<Rightarrow> pystr) \<Rightarrow> Venue \<Rightarrow> int \<Rightarrow> int option \<Rightarrow> pystr list option \<Rightarrow> error + rat" where
  "calculate_suitability_score lower v participant_count budget_per_person required_features =
     (case capacity_score v participant_count of
        Inl e \<Rightarrow> Inl e
      | Inr cs \<Rightarrow>
          let score = 0 + cs * (4 / 10);
              score = score + budget_score v budget_per_person * (3 / 10);
              score = score + feature_score lower v required_features * (2 / 10);
              score = score + rating_score v * (1 / 10)
          in Inr (min 1 (max 0 score)))"

record VenueSearchCriteria =
  criteria_event_type :: EventType
  participant_count :: int
  criteria_datetime :: datetime
  duration_minutes :: int
  budget_per_person :: "int option"
  location_hint :: pystr
  required_features :: "pystr list"
  accessibility_required :: bool

record VenueSearchResult =
  venue :: Venue
  source_api :: string
  suitability_score :: rat
  availability_confirmed :: bool
  booking_required :: bool
  estimated_total_cost :: "int option"
  result_notes :: "pystr list"

record APIFailureRecord =
  api_name :: string
  failure_time :: datetime
  failure_error_type :: string
  failure_error_message :: string
  failure_retry_count :: int

text \<open>The state of \<^verbatim>\<open>VenueAgent\<close> the search uses. \<open>failure_notices\<close> holds, in order,
  the API name and error message of each failure notification handed to
  \<^verbatim>\<open>send_message\<close>.\<close>

record VenueAgent =
  agent_event_id :: string
  google_places_api_key :: "string option"
  gurume_api_key :: "string option"
  current_event_type :: EventType
  search_criteria :: "VenueSearchCriteria option"
  search_results :: "VenueSearchResult list"
  api_failures :: "APIFailureRecord list"
  failure_notices :: "(string \<times> string) list"

text \<open>The entry \<^verbatim>\<open>gurume_categories\<close> of \<^verbatim>\<open>search_settings\<close>.\<close>

fun gurume_categories :: "EventType \<Rightarrow> string list" where
  "gurume_categories DINING = [''RSFST08000'', ''RSFST09000'']"
| "gurume_categories STUDY = []"
| "gurume_categories MEETING = []"

text \<open>\<^verbatim>\<open>_should_use_api\<close>: 300 seconds are 300000000 microseconds.\<close>

definition recent_failures :: "datetime \<Rightarrow> string \<Rightarrow> VenueAgent \<Rightarrow> APIFailureRecord list" where
  "recent_failures now api ag =
     filter (\<lambda>f. api_name f = api \<and> now - failure_time f < 300000000) (api_failures ag)"

definition should_use_api :: "datetime \<Rightarrow> string \<Rightarrow> VenueAgent \<Rightarrow> bool" where
  "should_use_api now api ag =
     (if length (recent_failures now api ag) \<ge> 3 then False
      else if api = ''google_places'' \<and> \<not> truthy_str (google_places_api_key ag) then False
      else if api = ''gurume'' \<and> \<not> truthy_str (gurume_api_key ag) then False
      else if api = ''gurume'' \<and> gurume_categories (current_event_type ag) = [] then False
      else True)"

text \<open>\<^verbatim>\<open>_record_api_failure\<close>; the recorded error type is \<^verbatim>\<open>type(Exception).__name__\<close>.\<close>

definition record_api_failure :: "datetime \<Rightarrow> string \<Rightarrow> string \<Rightarrow> VenueAgent \<Rightarrow> VenueAgent" where
  "record_api_failure now api msg ag =
     ag\<lparr>api_failures := api_failures ag @
            [\<lparr>api_name = api, failure_time = now, failure_error_type = ''type'',
              failure_error_message = msg, failure_retry_count = 0\<rparr>],
        failure_notices := failure_notices ag @ [(api, msg)]\<rparr>"

text \<open>The literals of \<^verbatim>\<open>_fallback_search\<close>: the names "meeting room A (fallback)" and
  "cafe B (fallback)" (13 code points each), the addresses in Chiyoda (7 code points) and in
  Minato (5 code points), the administrator's note, and the two notes "manual confirmation
  needed" and "fallback candidate because the API search failed".\<close>

definition fallback_name_A :: pystr where
  "fallback_name_A =
     [20250, 35696, 23460, 65, 65288, 12501, 12457, 12540, 12523, 12496, 12483, 12463, 65289]"

definition fallback_address_A :: pystr where
  "fallback_address_A = [26481, 20140, 37117, 21315, 20195, 30000, 21306]"

definition fallback_name_B :: pystr where
  "fallback_name_B =
     [12459, 12501, 12455, 66, 65288, 12501, 12457, 12540, 12523, 12496, 12483, 12463, 65289]"

definition fallback_address_B :: pystr where
  "fallback_address_B = [26481, 20140, 37117, 28207, 21306]"

definition fallback_admin_note :: pystr where
  "fallback_admin_note =
     [65, 80, 73, 26908, 32034, 22833, 25943, 12398, 12383, 12417, 12501, 12457, 12540, 12523,
      12496, 12483, 12463, 20505, 35036, 12290, 25163, 21205, 30906, 35469, 12364, 24517,
      35201, 12290]"

definition note_manual_confirmation :: pystr where
  "note_manual_confirmation = [25163, 21205, 30906, 35469, 12364, 24517, 35201]"

definition note_fallback_candidate :: pystr where
  "note_fallback_candidate =
     [65, 80, 73, 26908, 32034, 22833, 25943, 12398, 12383, 12417, 12398, 12501, 12457, 12540,
      12523, 12496, 12483, 12463, 20505, 35036]"

text \<open>The list \<^verbatim>\<open>fallback_venues\<close> with the \<^verbatim>\<open>Venue\<close> built from each entry; the two
  venue ids are drawn by \<^verbatim>\<open>uuid4\<close>. The literals pass the validators of the class.\<close>

definition fallback_venue ::
  "string \<Rightarrow> string \<Rightarrow> pystr \<Rightarrow> pystr \<Rightarrow> VenueType \<Rightarrow> int \<Rightarrow> int \<Rightarrow> Venue" where
  "fallback_venue uuid ev nm addr ty cap cost =
     \<lparr>venue_id = uuid, venue_event_id = ev, venue_type = ty, venue_name = nm,
      venue_address = addr, capacity = cap, minimum_capacity = None, features = [],
      booking_status = MANUAL_REQUIRED, estimated_cost_per_person = Some cost, rating = None,
      wheelchair_accessible = False, admin_notes = Some fallback_admin_note\<rparr>"

definition fallback_venues :: "string \<Rightarrow> string \<Rightarrow> string \<Rightarrow> Venue list" where
  "fallback_venues uuid1 uuid2 ev =
     [fallback_venue uuid1 ev fallback_name_A fallback_address_A MEETING_ROOM 20 2000,
      fallback_venue uuid2 ev fallback_name_B fallback_address_B RESTAURANT 15 1500]"

text \<open>The loop of \<^verbatim>\<open>_fallback_search\<close> over the venues: the score of the venue times 0.7.\<close>

fun fallback_results ::
  "(pystr \<Rightarrow> pystr) \<Rightarrow> VenueSearchCriteria \<Rightarrow> Venue list \<Rightarrow> error + VenueSearchResult list" where
  "fallback_results lower c [] = Inr []"
| "fallback_results lower c (v # vs) =
     (case calculate_suitability_score lower v (participant_count c) (budget_per_person c)
             (Some (required_features c)) of
        Inl e \<Rightarrow> Inl e
      | Inr score \<Rightarrow>
          (case fallback_results lower c vs of
             Inl e \<Rightarrow> Inl e
           | Inr results \<Rightarrow>
               Inr (\<lparr>venue = v, source_api = ''manual_fallback'',
                     suitability_score = score * (7 / 10), availability_confirmed = False,
                     booking_required = True, estimated_total_cost = None,
                     result_notes = [note_manual_confirmation, note_fallback_candidate]\<rparr> # results)))"

definition fallback_search ::
  "(pystr \<Rightarrow> pystr) \<Rightarrow> string \<Rightarrow> string \<Rightarrow> VenueAgent \<Rightarrow> error + VenueSearchResult list" where
  "fallback_search lower uuid1 uuid2 ag =
     (case search_criteria ag of
        None \<Rightarrow> Inl AttributeError
      | Some c \<Rightarrow> fallback_results lower c (fallback_venues uuid1 uuid2 (agent_event_id ag)))"

text \<open>
  What one source does when its search coroutine is awaited by \<^verbatim>\<open>asyncio.gather\<close>: it
  returns a list, having caught and recorded an exception of its API call under its own
  name or not; or an exception escapes it, which \<^verbatim>\<open>_search_venues\<close> records under the
  name "unknown". The outcome of each source is an argument of the search.
\<close>

datatype source_outcome =
    Source_returned "VenueSearchResult list" "string option"
  | Source_raised string

definition search_tasks :: "datetime \<Rightarrow> VenueAgent \<Rightarrow> string list" where
  "search_tasks now ag =
     (if should_use_api now ''google_places'' ag then [''google_places''] else [])
     @ (if should_use_api now ''gurume'' ag then [''gurume''] else [])"

fun run_sources ::
  "datetime \<Rightarrow> (string \<Rightarrow> source_outcome) \<Rightarrow> string list \<Rightarrow> VenueAgent \<Rightarrow> VenueAgent" where
  "run_sources now outcome [] ag = ag"
| "run_sources now outcome (api # apis) ag =
     (case outcome api of
        Source_returned results (Some e) \<Rightarrow>
          run_sources now outcome apis (record_api_failure now api e ag)
      | _ \<Rightarrow> run_sources now outcome apis ag)"

fun collect_results ::
  "datetime \<Rightarrow> (string \<Rightarrow> source_outcome) \<Rightarrow> string list
    \<Rightarrow> VenueSearchResult list \<times> VenueAgent \<Rightarrow> VenueSearchResult list \<times> VenueAgent" where
  "collect_results now outcome [] acc = acc"
| "collect_results now outcome (api # apis) (all_results, ag) =
     (case outcome api of
        Source_raised e \<Rightarrow>
          collect_results now outcome apis (all_results, record_api_failure now ''unknown'' e ag)
      | Source_returned results caught \<Rightarrow>
          collect_results now outcome apis (all_results @ results, ag))"

definition search_venues ::
  "datetime \<Rightarrow> (pystr \<Rightarrow> pystr) \<Rightarrow> string \<Rightarrow> string \<Rightarrow> (string \<Rightarrow> source_outcome) \<Rightarrow> VenueAgent
    \<Rightarrow> (error + VenueSearchResult list) \<times> VenueAgent" where
  "search_venues now lower uuid1 uuid2 outcome ag =
     (let tasks = search_tasks now ag;
          ag1 = run_sources now outcome tasks ag;
          (all_results, ag2) = collect_results now outcome tasks ([], ag1)
      in if all_results = [] then
           (case fallback_search lower uuid1 uuid2 ag2 of
              Inl e \<Rightarrow> (Inl e, ag2)
            | Inr fallback \<Rightarrow> (Inr fallback, ag2\<lparr>search_results := fallback\<rparr>))
         else (Inr all_results, ag2\<lparr>search_results := all_results\<rparr>))"

text \<open>What the queried sources return together, in the order of the tasks.\<close>

definition merged_results ::
  "datetime \<Rightarrow> (string \<Rightarrow> source_outcome) \<Rightarrow> VenueAgent \<Rightarrow> VenueSearchResult list" where
  "merged_results now outcome ag =
     concat (map (\<lambda>api. case outcome api of
                          Source_returned results caught \<Rightarrow> results
                        | Source_raised e \<Rightarrow> [])
               (search_tasks now ag))"

text \<open>A venue agent for a dining event with both API keys, whose Google Places source
  failed three times in the last five minutes before time 400000000; the search criteria
  of a dining event for 5 people with a budget of 3000 each.\<close>

definition example_criteria :: VenueSearchCriteria where
  "example_criteria =
     \<lparr>criteria_event_type = DINING, participant_count = 5, criteria_datetime = 900000000,
      duration_minutes = 90, budget_per_person = Some 3000, location_hint = [],
      required_features = [[39135, 20107, 25552, 20379]], accessibility_required = False\<rparr>"

definition example_failure :: "datetime \<Rightarrow> APIFailureRecord" where
  "example_failure t =
     \<lparr>api_name = ''google_places'', failure_time = t, failure_error_type = ''type'',
      failure_error_message = ''timeout'', failure_retry_count = 0\<rparr>"

definition example_venue_agent :: VenueAgent where
  "example_venue_agent =
     \<lparr>agent_event_id = ''e1'', google_places_api_key = Some ''k1'',
      gurume_api_key = Some ''k2'', current_event_type = DINING,
      search_criteria = Some example_criteria, search_results = [],
      api_failures = [example_failure 150000000, example_failure 200000000,
                      example_failure 300000000],
      failure_notices = []\<rparr>"

definition example_outcome :: "string \<Rightarrow> source_outcome" where
  "example_outcome api = Source_returned [] (Some ''connection refused'')"


section \<open>The time-slot optimizer (agents/scheduling_agent.py)\<close>

record TimeSlot =
  start_time :: datetime
  end_time :: datetime
  preference_level :: int

text \<open>The validators of \<^verbatim>\<open>TimeSlot\<close>: the end lies after the start and the preference
  level is 1, 2 or 3.\<close>

definition valid_time_slot :: "TimeSlot \<Rightarrow> bool" where
  "valid_time_slot ts \<longleftrightarrow>
     start_time ts < end_time ts \<and> preference_level ts \<in> {1, 2, 3}"

text \<open>A conflict detail names the participant and the bounds of the slot that overlaps
  the candidate only in part.\<close>

type_synonym conflict_detail = "string \<times> datetime \<times> datetime"

record TimeSlotAnalysis =
  time_slot :: TimeSlot
  participants_available :: "string list"
  participants_unavailable :: "string list"
  preference_weights :: "(string \<times> rat) list"
  conflict_details :: "conflict_detail list"

text \<open>The reasons \<^verbatim>\<open>_generate_schedule_reasoning\<close> joins into its text.\<close>

datatype reason =
    Attendance_high rat | Attendance_adequate rat | Attendance_low rat
  | Preference_high | Preference_medium | Preference_low
  | Conflicts_few | Conflicts_minor | Conflicts_many
  | Suited_to_event_type EventType

record ScheduleOption =
  option_id :: string
  option_start_time :: datetime
  option_end_time :: datetime
  available_participants :: "string list"
  unavailable_participants :: "string list"
  preference_score :: rat
  conflict_score :: rat
  total_score :: rat
  reasoning :: "reason list"

text \<open>The table \<^verbatim>\<open>event_type_preferences\<close>.\<close>

fun preferred_hours :: "EventType \<Rightarrow> int list" where
  "preferred_hours DINING = [12, 13, 18, 19, 20]"
| "preferred_hours STUDY = [10, 11, 14, 15, 16]"
| "preferred_hours MEETING = [9, 10, 11, 14, 15, 16]"

fun default_duration_minutes :: "EventType \<Rightarrow> int" where
  "default_duration_minutes DINING = 90"
| "default_duration_minutes STUDY = 120"
| "default_duration_minutes MEETING = 60"

text \<open>Calendar reading of a datetime: the hour of the day, and the weekday with Monday 0
  (1970-01-01 was a Thursday).\<close>

definition hour_of :: "datetime \<Rightarrow> int" where
  "hour_of t = (t div 3600000000) mod 24"

definition weekday :: "datetime \<Rightarrow> int" where
  "weekday t = (t div 86400000000 + 3) mod 7"

text \<open>\<^verbatim>\<open>_generate_potential_time_slots\<close>: the while loop over the days from tomorrow to the
  day two weeks from today, both at midnight.\<close>

function potential_slots_from :: "EventType \<Rightarrow> datetime \<Rightarrow> datetime \<Rightarrow> TimeSlot list \<Rightarrow> TimeSlot list" where
  "potential_slots_from et current_date end_date potential_slots =
     (if current_date \<le> end_date then
        (if weekday current_date \<ge> 5
         then potential_slots_from et (current_date + 86400000000) end_date potential_slots
         else potential_slots_from et (current_date + 86400000000) end_date
                (potential_slots @
                 map (\<lambda>hour.
                        let slot_start = current_date + hour * 3600000000;
                            slot_end = slot_start + default_duration_minutes et * 60000000
                        in \<lparr>start_time = slot_start, end_time = slot_end, preference_level = 2\<rparr>)
                   (preferred_hours et)))
      else potential_slots)"
  by pat_completeness auto
termination
  by (relation "measure (\<lambda>(et, current_date, end_date, acc). nat (end_date - current_date + 1))")
     auto

definition generate_potential_time_slots :: "datetime \<Rightarrow> EventType \<Rightarrow> TimeSlot list" where
  "generate_potential_time_slots now et =
     (let start_date = now - now mod 86400000000;
          end_date = start_date + 14 * 86400000000;
          current_date = start_date + 86400000000
      in potential_slots_from et current_date end_date [])"

definition slots_overlap :: "TimeSlot \<Rightarrow> TimeSlot \<Rightarrow> bool" where
  "slots_overlap slot1 slot2 \<longleftrightarrow>
     \<not> (end_time slot1 \<le> start_time slot2 \<or> end_time slot2 \<le> start_time slot1)"

definition slot_fully_contains :: "TimeSlot \<Rightarrow> TimeSlot \<Rightarrow> bool" where
  "slot_fully_contains container inner \<longleftrightarrow>
     start_time container \<le> start_time inner \<and> end_time inner \<le> end_time container"

text \<open>The inner loop of \<^verbatim>\<open>_analyze_single_time_slot\<close> over the slots of one participant,
  on \<^verbatim>\<open>is_available\<close>, \<^verbatim>\<open>max_preference\<close> and the conflict details.\<close>

fun scan_user_slots ::
  "TimeSlot \<Rightarrow> string \<Rightarrow> TimeSlot list \<Rightarrow> bool \<times> int \<times> conflict_detail list
    \<Rightarrow> bool \<times> int \<times> conflict_detail list" where
  "scan_user_slots ts user_id [] acc = acc"
| "scan_user_slots ts user_id (user_slot # user_slots) (is_available, max_preference, details) =
     (if slots_overlap ts user_slot then
        scan_user_slots ts user_id user_slots
          (True, max max_preference (preference_level user_slot),
           if \<not> slot_fully_contains user_slot ts
           then details @ [(user_id, start_time user_slot, end_time user_slot)]
           else details)
      else scan_user_slots ts user_id user_slots (is_available, max_preference, details))"

text \<open>The outer loop over the items of \<^verbatim>\<open>participant_time_slots\<close>, a dictionary from user
  ids to slots given as the list of its items.\<close>

fun analyze_participants ::
  "TimeSlot \<Rightarrow> (string \<times> TimeSlot list) list
    \<Rightarrow> string list \<times> string list \<times> (string \<times> rat) list \<times> conflict_detail list
    \<Rightarrow> string list \<times> string list \<times> (string \<times> rat) list \<times> conflict_detail list" where
  "analyze_participants ts [] acc = acc"
| "analyze_participants ts ((user_id, user_slots) # rest) (avail, unavail, weights, details) =
     (case scan_user_slots ts user_id user_slots (False, 0, details) of
        (is_available, max_preference, details1) \<Rightarrow>
          if is_available then
            analyze_participants ts rest
              (avail @ [user_id], unavail,
               AList.update user_id (rat_of_int max_preference / 3) weights, details1)
          else
            analyze_participants ts rest (avail, unavail @ [user_id], weights, details1))"

definition analyze_single_time_slot ::
  "TimeSlot \<Rightarrow> (string \<times> TimeSlot list) list \<Rightarrow> TimeSlotAnalysis" where
  "analyze_single_time_slot ts participant_time_slots =
     (case analyze_participants ts participant_time_slots ([], [], [], []) of
        (avail, unavail, weights, details) \<Rightarrow>
          \<lparr>time_slot = ts, participants_available = avail,
           participants_unavailable = unavail, preference_weights = weights,
           conflict_details = details\<rparr>)"

definition analyze_time_slots ::
  "datetime \<Rightarrow> EventType \<Rightarrow> (string \<times> TimeSlot list) list \<Rightarrow> TimeSlotAnalysis list" where
  "analyze_time_slots now et participant_time_slots =
     map (\<lambda>slot. analyze_single_time_slot slot participant_time_slots)
       (generate_potential_time_slots now et)"

definition get_availability_score :: "TimeSlotAnalysis \<Rightarrow> rat" where
  "get_availability_score a =
     (let total = length (participants_available a) + length (participants_unavailable a)
      in if total = 0 then 0
         else rat_of_nat (length (participants_available a)) / rat_of_nat total)"

definition calculate_preference_score :: "TimeSlotAnalysis \<Rightarrow> rat" where
  "calculate_preference_score a =
     (if preference_weights a = [] then 0
      else
        let total_weight = sum_list (map snd (preference_weights a));
            max_possible = rat_of_nat (length (preference_weights a)) * 1
        in if max_possible > 0 then total_weight / max_possible else 0)"

definition calculate_conflict_score :: "TimeSlotAnalysis \<Rightarrow> rat" where
  "calculate_conflict_score a =
     (if conflict_details a = [] then 0
      else
        let conflict_count = length (conflict_details a);
            total_participants =
              length (participants_available a) + length (participants_unavailable a)
        in if total_participants = 0 then 1
           else min (rat_of_nat conflict_count / rat_of_nat total_participants) 1)"

text \<open>\<^verbatim>\<open>_calculate_event_type_fitness\<close>. The minimum runs over the preferred hours of the
  event type, of which every event type has some.\<close>

definition calculate_event_type_fitness :: "EventType \<Rightarrow> TimeSlot \<Rightarrow> rat" where
  "calculate_event_type_fitness et ts =
     (let hour = hour_of (start_time ts) in
      if hour \<in> set (preferred_hours et) then 1
      else
        let min_distance = Min (set (map (\<lambda>pref_hour. \<bar>hour - pref_hour\<bar>) (preferred_hours et)))
        in max 0 (1 - rat_of_int min_distance / 12))"

definition generate_schedule_reasoning ::
  "EventType \<Rightarrow> rat \<Rightarrow> rat \<Rightarrow> rat \<Rightarrow> rat \<Rightarrow> reason list" where
  "generate_schedule_reasoning et preference conflict attendance_rate type_fitness =
     [if attendance_rate \<ge> 8 / 10 then Attendance_high attendance_rate
      else if attendance_rate \<ge> 6 / 10 then Attendance_adequate attendance_rate
      else Attendance_low attendance_rate]
     @ [if preference \<ge> 7 / 10 then Preference_high
        else if preference \<ge> 4 / 10 then Preference_medium
        else Preference_low]
     @ [if conflict \<le> 2 / 10 then Conflicts_few
        else if conflict \<le> 5 / 10 then Conflicts_minor
        else Conflicts_many]
     @ (if type_fitness \<ge> 8 / 10 then [Suited_to_event_type et] else [])"

definition create_schedule_option :: "EventType \<Rightarrow> string \<Rightarrow> TimeSlotAnalysis \<Rightarrow> ScheduleOption" where
  "create_schedule_option et uuid analysis =
     (let preference = calculate_preference_score analysis;
          conflict = calculate_conflict_score analysis;
          attendance_rate = get_availability_score analysis;
          type_fitness = calculate_event_type_fitness et (time_slot analysis);
          total = preference * (3 / 10) + (1 - conflict) * (2 / 10)
                  + attendance_rate * (3 / 10) + type_fitness * (2 / 10)
      in \<lparr>option_id = uuid,
          option_start_time = start_time (time_slot analysis),
          option_end_time = end_time (time_slot analysis),
          available_participants = participants_available analysis,
          unavailable_participants = participants_unavailable analysis,
          preference_score = preference, conflict_score = conflict, total_score = total,
          reasoning = generate_schedule_reasoning et preference conflict attendance_rate
                        type_fitness\<rparr>)"

text \<open>The loop of \<^verbatim>\<open>_optimize_schedule\<close> over the analyses; the k-th option created draws
  the id \<open>ids k\<close>.\<close>

fun build_options ::
  "EventType \<Rightarrow> (nat \<Rightarrow> string) \<Rightarrow> nat \<Rightarrow> TimeSlotAnalysis list \<Rightarrow> ScheduleOption list" where
  "build_options et ids k [] = []"
| "build_options et ids k (analysis # analyses) =
     (if length (participants_available analysis) \<ge> 2
      then create_schedule_option et (ids k) analysis # build_options et ids (Suc k) analyses
      else build_options et ids k analyses)"

text \<open>\<^verbatim>\<open>list.sort(key=..., reverse=True)\<close>: descending by the key, elements with equal keys
  in their original order.\<close>

definition sort_reverse :: "('a \<Rightarrow> rat) \<Rightarrow> 'a list \<Rightarrow> 'a list" where
  "sort_reverse key xs = rev (sort_key key (rev xs))"

definition rank_options :: "ScheduleOption list \<Rightarrow> ScheduleOption list" where
  "rank_options schedule_options = take 5 (sort_reverse total_score schedule_options)"

definition optimize_schedule ::
  "datetime \<Rightarrow> EventType \<Rightarrow> (nat \<Rightarrow> string) \<Rightarrow> (string \<times> TimeSlot list) list
    \<Rightarrow> ScheduleOption list" where
  "optimize_schedule now et ids participant_time_slots =
     rank_options (build_options et ids 0 (analyze_time_slots now et participant_time_slots))"

definition select_best_schedule :: "ScheduleOption list \<Rightarrow> ScheduleOption option" where
  "select_best_schedule schedule_options =
     (case schedule_options of [] \<Rightarrow> None | best_option # rest \<Rightarrow> Some best_option)"

text \<open>
  The score as the specification words it. A participant is available for a candidate when
  one of the participant's slots overlaps it, and the best matching preference level is the
  greatest level among those slots.
\<close>

definition spec_available :: "TimeSlot \<Rightarrow> (string \<times> TimeSlot list) list \<Rightarrow> (string \<times> TimeSlot list) list" where
  "spec_available ts participants =
     filter (\<lambda>(user_id, user_slots). \<exists>u \<in> set user_slots. slots_overlap ts u) participants"

definition spec_best_level :: "TimeSlot \<Rightarrow> TimeSlot list \<Rightarrow> int" where
  "spec_best_level ts user_slots =
     Max (set (map preference_level (filter (slots_overlap ts) user_slots)))"

definition spec_preference :: "TimeSlot \<Rightarrow> (string \<times> TimeSlot list) list \<Rightarrow> rat" where
  "spec_preference ts participants =
     sum_list (map (\<lambda>(user_id, user_slots). rat_of_int (spec_best_level ts user_slots) / 3)
                 (spec_available ts participants))
     / rat_of_nat (length (spec_available ts participants))"

definition spec_conflict :: "TimeSlotAnalysis \<Rightarrow> nat \<Rightarrow> rat" where
  "spec_conflict analysis total_participants =
     (if conflict_details analysis = [] then 0
      else min 1 (rat_of_nat (length (conflict_details analysis)) / rat_of_nat total_participants))"

definition spec_attendance :: "TimeSlot \<Rightarrow> (string \<times> TimeSlot list) list \<Rightarrow> rat" where
  "spec_attendance ts participants =
     rat_of_nat (length (spec_available ts participants))
     / rat_of_nat (length (spec_available ts participants)
                   + length (filter (\<lambda>p. p \<notin> set (spec_available ts participants)) participants))"

definition spec_type_fit :: "EventType \<Rightarrow> TimeSlot \<Rightarrow> rat" where
  "spec_type_fit et ts =
     (if hour_of (start_time ts) \<in> set (preferred_hours et) then 1
      else max 0 (1 - rat_of_int
             (Min ((\<lambda>pref_hour. \<bar>hour_of (start_time ts) - pref_hour\<bar>) ` set (preferred_hours et)))
             / 12))"

definition spec_total :: "EventType \<Rightarrow> TimeSlot \<Rightarrow> (string \<times> TimeSlot list) list \<Rightarrow> rat" where
  "spec_total et ts participants =
     (3 / 10) * spec_preference ts participants
     + (2 / 10) * (1 - spec_conflict (analyze_single_time_slot ts participants) (length participants))
     + (3 / 10) * spec_attendance ts participants
     + (2 / 10) * spec_type_fit et ts"

text \<open>Three participants of a dining event and a candidate on 1970-01-06, a Tuesday, from
  18:00 to 19:30: the first two hold the whole evening with preference 3 and 2, the third
  only 19:00 to 21:00 with preference 1.\<close>

definition example_candidate :: TimeSlot where
  "example_candidate =
     \<lparr>start_time = 5 * 86400000000 + 18 * 3600000000,
      end_time = 5 * 86400000000 + 18 * 3600000000 + 90 * 60000000, preference_level = 2\<rparr>"

definition example_participants :: "(string \<times> TimeSlot list) list" where
  "example_participants =
     [(''U1'', [\<lparr>start_time = 5 * 86400000000 + 17 * 3600000000,
                end_time = 5 * 86400000000 + 22 * 3600000000, preference_level = 3\<rparr>]),
      (''U2'', [\<lparr>start_time = 5 * 86400000000 + 18 * 3600000000,
                end_time = 5 * 86400000000 + 20 * 3600000000, preference_level = 2\<rparr>]),
      (''U3'', [\<lparr>start_time = 5 * 86400000000 + 19 * 3600000000,
                end_time = 5 * 86400000000 + 21 * 3600000000, preference_level = 1\<rparr>])]"


section \<open>Verified properties\<close>

subsection \<open>Helper facts about the session methods\<close>

lemma checkpoints_update_timestamp [simp]:
  "checkpoints (update_timestamp now s) = checkpoints s"
  by (simp add: update_timestamp_def)

lemma checkpoints_log_activity [simp]:
  "checkpoints (log_activity now m s) = checkpoints s"
  by (simp add: log_activity_def Let_def)

lemma checkpoints_create_checkpoint:
  "checkpoints (create_checkpoint now uuid d s) =
     checkpoints s @ [\<lparr>checkpoint_id = uuid, phase = current_phase s,
        checkpoint_timestamp = now, data_snapshot = workflow_data s,
        agent_states = snapshot_agents (active_agents s), decision_points = [d]\<rparr>]"
  by (simp add: create_checkpoint_def Let_def)

lemma checkpoints_log_error [simp]:
  "checkpoints (log_error now name etype msg ctx trace s) = checkpoints s"
  by (simp add: log_error_def Let_def)

lemma checkpoints_transition:
  "checkpoints (snd (transition_to_phase now uuid p s)) =
     (if p \<in> set (valid_transitions (current_phase s))
      then checkpoints s @ [\<lparr>checkpoint_id = uuid, phase = p,
        checkpoint_timestamp = now, data_snapshot = workflow_data s,
        agent_states = snapshot_agents (active_agents s),
        decision_points = [Phase_transition (Some (current_phase s)) p]\<rparr>]
      else checkpoints s)"
  by (simp add: transition_to_phase_def Let_def checkpoints_create_checkpoint)

lemma checkpoints_add_agent [simp]:
  "checkpoints (snd (add_agent now uuid name s)) = checkpoints s"
  by (simp add: add_agent_def Let_def)

lemma checkpoints_start_agent [simp]:
  "checkpoints (snd (start_agent now name task s)) = checkpoints s"
  by (simp add: start_agent_def split: option.splits)

lemma checkpoints_complete_agent [simp]:
  "checkpoints (snd (complete_agent now name result s)) = checkpoints s"
  by (simp add: complete_agent_def split: option.splits)

lemma checkpoints_fail_agent [simp]:
  "checkpoints (snd (fail_agent now name msg s)) = checkpoints s"
  by (simp add: fail_agent_def split: option.splits)

lemma checkpoints_update_agent_progress [simp]:
  "checkpoints (snd (update_agent_progress now name progress task s)) = checkpoints s"
  by (simp add: update_agent_progress_def split: option.splits)

lemma checkpoints_pause_resume [simp]:
  "checkpoints (pause_session now reason s) = checkpoints s"
  "checkpoints (resume_session now s) = checkpoints s"
  by (simp_all add: pause_session_def resume_session_def)

lemma prefix_checkpoints_apply_op:
  "prefix (checkpoints s) (checkpoints (apply_op x s))"
  by (cases x) (simp_all add: checkpoints_transition checkpoints_create_checkpoint)

lemma prefix_checkpoints_run_ops:
  "prefix (checkpoints s) (checkpoints (run_ops xs s))"
proof (induction xs arbitrary: s)
  case Nil
  show ?case by simp
next
  case (Cons x xs)
  have "prefix (checkpoints s) (checkpoints (apply_op x s))"
    by (rule prefix_checkpoints_apply_op)
  moreover have "prefix (checkpoints (apply_op x s)) (checkpoints (run_ops xs (apply_op x s)))"
    by (rule Cons.IH)
  ultimately show ?case
    using prefix_order.order_trans by fastforce
qed

lemma update_first_None:
  "update_first P f xs = None \<longleftrightarrow> (\<forall>x \<in> set xs. \<not> P x)"
  by (induction xs) (auto split: option.splits)

lemma update_first_Some:
  "update_first P f xs = Some ys \<Longrightarrow>
     \<exists>i < length xs. P (xs ! i) \<and> (\<forall>j < i. \<not> P (xs ! j)) \<and> ys = xs[i := f (xs ! i)]"
proof (induction xs arbitrary: ys)
  case Nil
  then show ?case by simp
next
  case (Cons x xs)
  show ?case
  proof (cases "P x")
    case True
    with Cons.prems have "ys = (x # xs)[0 := f ((x # xs) ! 0)]" by simp
    with True show ?thesis by fastforce
  next
    case False
    with Cons.prems obtain zs where zs: "update_first P f xs = Some zs" "ys = x # zs"
      by (auto split: option.splits)
    from Cons.IH [OF zs(1)] obtain i where i: "i < length xs" "P (xs ! i)"
      "\<forall>j < i. \<not> P (xs ! j)" "zs = xs[i := f (xs ! i)]" by blast
    have "\<forall>j < Suc i. \<not> P ((x # xs) ! j)"
      using False i(3) by (auto simp: less_Suc_eq_0_disj)
    with i zs(2) show ?thesis
      by (intro exI [of _ "Suc i"]) simp
  qed
qed


lemma run_ops_append: "run_ops (xs @ ys) s = run_ops ys (run_ops xs s)"
  by (induction xs arbitrary: s) simp_all

subsection \<open>C1: an illegal transition is rejected without any change\<close>

text \<open>
  Claim C1. For every session and every target phase: when the target phase is not in the
  entry of the legal-transition table for the current phase, \<^verbatim>\<open>transition_to_phase\<close>
  returns False and the session it leaves is the session it was given; in particular the
  current phase, the previous phase and the checkpoint list are as before.
\<close>

theorem transition_rejected_unchanged:
  assumes "new_phase \<notin> set (valid_transitions (current_phase s))"
  shows "transition_to_phase now uuid new_phase s = (False, s)
    \<and> current_phase (snd (transition_to_phase now uuid new_phase s)) = current_phase s
    \<and> previous_phase (snd (transition_to_phase now uuid new_phase s)) = previous_phase s
    \<and> checkpoints (snd (transition_to_phase now uuid new_phase s)) = checkpoints s"
  using assms by (simp add: transition_to_phase_def)

theorem transition_rejected_unchanged_witness:
  "PARTICIPANT_COLLECTION \<notin> set (valid_transitions (current_phase example_session))
   \<and> transition_to_phase 50 ''u'' PARTICIPANT_COLLECTION example_session = (False, example_session)
   \<and> current_phase (snd (transition_to_phase 50 ''u'' PARTICIPANT_COLLECTION example_session))
       = ANNOUNCEMENT"
proof -
  have h: "PARTICIPANT_COLLECTION \<notin> set (valid_transitions (current_phase example_session))"
    by (simp add: example_session_def)
  from transition_rejected_unchanged [OF h, of 50 "''u''"] h show ?thesis
    by (simp add: example_session_def)
qed

subsection \<open>C2: checkpoints are appended by accepted transitions and never removed\<close>

lemma find_Some_member: "find P xs = Some y \<Longrightarrow> y \<in> set xs \<and> P y"
  by (induction xs) (auto split: if_splits)

lemma find_append_cases:
  "find P (xs @ ys) = (case find P xs of None \<Rightarrow> find P ys | Some x \<Rightarrow> Some x)"
  by (induction xs) simp_all

lemma map_of_fold_update:
  "map_of (fold (\<lambda>a m. AList.update (k a) (v a) m) xs m0) n =
     (case find (\<lambda>a. k a = n) (rev xs) of
        Some a \<Rightarrow> Some (v a)
      | None \<Rightarrow> map_of m0 n)"
proof (induction xs arbitrary: m0)
  case Nil
  show ?case by simp
next
  case (Cons x xs)
  show ?case
    by (simp add: Cons.IH find_append_cases update_conv' split: option.splits)
qed

lemma distinct_fold_update:
  "distinct (map fst m0) \<Longrightarrow> distinct (map fst (fold (\<lambda>a m. AList.update (k a) (v a) m) xs m0))"
  by (induction xs arbitrary: m0) (simp_all add: distinct_update)

lemma snapshot_agents_lookup:
  "map_of (snapshot_agents agents) n =
     map_option (\<lambda>a. (status a, progress_percentage a, current_task a))
       (find (\<lambda>a. agent_name a = n) (rev agents))"
  unfolding snapshot_agents_def
  by (simp add: map_of_fold_update split: option.splits)

lemma snapshot_agents_distinct: "distinct (map fst (snapshot_agents agents))"
  unfolding snapshot_agents_def by (rule distinct_fold_update) simp

text \<open>
  Claim C2. An accepted \<^verbatim>\<open>transition_to_phase\<close> appends exactly one checkpoint. It
  records the target phase and the workflow data, and its agent states form a dictionary
  with one entry for each name among the tracked agents and no other: the entry of a name
  holds the status, the progress and the task of the instance of that name (of the last
  one in the list, when several instances share the name). Along any sequence of session
  operations the checkpoint list only grows: the list after a longer run extends the list
  after any shorter run, so its length never decreases.
\<close>

theorem checkpoints_append_only:
  "(fst (transition_to_phase now uuid p s) \<longrightarrow>
      checkpoints (snd (transition_to_phase now uuid p s)) =
        checkpoints s @ [\<lparr>checkpoint_id = uuid, phase = p, checkpoint_timestamp = now,
          data_snapshot = workflow_data s, agent_states = snapshot_agents (active_agents s),
          decision_points = [Phase_transition (Some (current_phase s)) p]\<rparr>]
      \<and> length (checkpoints (snd (transition_to_phase now uuid p s)))
          = Suc (length (checkpoints s))
      \<and> phase (last (checkpoints (snd (transition_to_phase now uuid p s)))) = p
      \<and> data_snapshot (last (checkpoints (snd (transition_to_phase now uuid p s))))
          = workflow_data s
      \<and> distinct (map fst (agent_states (last (checkpoints (snd (transition_to_phase now uuid p s))))))
      \<and> (\<forall>n. map_of (agent_states (last (checkpoints (snd (transition_to_phase now uuid p s))))) n
             = map_option (\<lambda>a. (status a, progress_percentage a, current_task a))
                 (find (\<lambda>a. agent_name a = n) (rev (active_agents s))))
      \<and> (\<forall>a \<in> set (active_agents s).
            distinct (map agent_name (active_agents s)) \<longrightarrow>
            map_of (agent_states (last (checkpoints (snd (transition_to_phase now uuid p s)))))
              (agent_name a) = Some (status a, progress_percentage a, current_task a)))
   \<and> (\<not> fst (transition_to_phase now uuid p s) \<longrightarrow>
        checkpoints (snd (transition_to_phase now uuid p s)) = checkpoints s)
   \<and> prefix (checkpoints (run_ops xs s)) (checkpoints (run_ops (xs @ ys) s))
   \<and> length (checkpoints (run_ops xs s)) \<le> length (checkpoints (run_ops (xs @ ys) s))"
proof -
  let ?s' = "snd (transition_to_phase now uuid p s)"
  let ?cp = "\<lparr>checkpoint_id = uuid, phase = p, checkpoint_timestamp = now,
          data_snapshot = workflow_data s, agent_states = snapshot_agents (active_agents s),
          decision_points = [Phase_transition (Some (current_phase s)) p]\<rparr>"
  have a: "fst (transition_to_phase now uuid p s) \<longleftrightarrow> p \<in> set (valid_transitions (current_phase s))"
    by (simp add: transition_to_phase_def Let_def)
  have b: "prefix (checkpoints (run_ops xs s)) (checkpoints (run_ops (xs @ ys) s))"
    by (simp add: run_ops_append prefix_checkpoints_run_ops)
  from b have c: "length (checkpoints (run_ops xs s)) \<le> length (checkpoints (run_ops (xs @ ys) s))"
    by (rule prefix_length_le)
  have d: "\<not> fst (transition_to_phase now uuid p s) \<longrightarrow> checkpoints ?s' = checkpoints s"
    using a by (simp add: checkpoints_transition)
  have e: "map_of (snapshot_agents (active_agents s)) (agent_name x)
        = Some (status x, progress_percentage x, current_task x)"
    if x: "x \<in> set (active_agents s)" and dist: "distinct (map agent_name (active_agents s))" for x
  proof -
    from x have "find (\<lambda>y. agent_name y = agent_name x) (rev (active_agents s)) \<noteq> None"
      by (auto simp: find_None_iff)
    then obtain y where y: "find (\<lambda>y. agent_name y = agent_name x) (rev (active_agents s)) = Some y"
      by blast
    from find_Some_member [OF this]
    have "y \<in> set (active_agents s)" "agent_name y = agent_name x"
      by simp_all
    with x dist have "y = x"
      by (meson distinct_map inj_onD)
    with y show ?thesis by (simp add: snapshot_agents_lookup)
  qed
  have f: "fst (transition_to_phase now uuid p s) \<longrightarrow>
      checkpoints ?s' = checkpoints s @ [?cp]
      \<and> length (checkpoints ?s') = Suc (length (checkpoints s))
      \<and> phase (last (checkpoints ?s')) = p
      \<and> data_snapshot (last (checkpoints ?s')) = workflow_data s
      \<and> distinct (map fst (agent_states (last (checkpoints ?s'))))
      \<and> (\<forall>n. map_of (agent_states (last (checkpoints ?s'))) n
             = map_option (\<lambda>a. (status a, progress_percentage a, current_task a))
                 (find (\<lambda>a. agent_name a = n) (rev (active_agents s))))
      \<and> (\<forall>a \<in> set (active_agents s).
            distinct (map agent_name (active_agents s)) \<longrightarrow>
            map_of (agent_states (last (checkpoints ?s'))) (agent_name a)
              = Some (status a, progress_percentage a, current_task a))"
  proof
    assume "fst (transition_to_phase now uuid p s)"
    with a have cps: "checkpoints ?s' = checkpoints s @ [?cp]"
      by (simp add: checkpoints_transition)
    then have l: "last (checkpoints ?s') = ?cp" by simp
    show "checkpoints ?s' = checkpoints s @ [?cp]
      \<and> length (checkpoints ?s') = Suc (length (checkpoints s))
      \<and> phase (last (checkpoints ?s')) = p
      \<and> data_snapshot (last (checkpoints ?s')) = workflow_data s
      \<and> distinct (map fst (agent_states (last (checkpoints ?s'))))
      \<and> (\<forall>n. map_of (agent_states (last (checkpoints ?s'))) n
             = map_option (\<lambda>a. (status a, progress_percentage a, current_task a))
                 (find (\<lambda>a. agent_name a = n) (rev (active_agents s))))
      \<and> (\<forall>a \<in> set (active_agents s).
            distinct (map agent_name (active_agents s)) \<longrightarrow>
            map_of (agent_states (last (checkpoints ?s'))) (agent_name a)
              = Some (status a, progress_percentage a, current_task a))"
      unfolding l using cps e
      by (simp add: snapshot_agents_lookup snapshot_agents_distinct)
  qed
  from f d b c show ?thesis by blast
qed

theorem checkpoints_append_only_witness:
  "fst (transition_to_phase 50 ''u'' PHASE_COMPLETED example_session)
   \<and> length (checkpoints (snd (transition_to_phase 50 ''u'' PHASE_COMPLETED example_session))) = 1
   \<and> map phase (checkpoints (snd (transition_to_phase 50 ''u'' PHASE_COMPLETED example_session)))
       = [PHASE_COMPLETED]
   \<and> map agent_states (checkpoints (snd (transition_to_phase 50 ''u'' PHASE_COMPLETED example_session)))
       = [[(''participant_agent'', (COMPLETED, 100, None)),
           (''scheduling_agent'', (ACTIVE, 40, Some ''optimize''))]]
   \<and> distinct (map agent_name (active_agents example_session))
   \<and> map_of (agent_states (last (checkpoints
         (snd (transition_to_phase 50 ''u'' PHASE_COMPLETED example_session))))) ''scheduling_agent''
       = Some (ACTIVE, 40, Some ''optimize'')
   \<and> \<not> fst (transition_to_phase 50 ''u'' INITIALIZATION example_session)
   \<and> checkpoints (snd (transition_to_phase 50 ''u'' INITIALIZATION example_session)) = []
   \<and> length (checkpoints (run_ops [Pause_session 51 ''wait''] example_session))
       \<le> length (checkpoints (run_ops ([Pause_session 51 ''wait'']
            @ [Transition_to_phase 52 ''u'' PHASE_COMPLETED, Resume_session 53]) example_session))"
proof -
  have h: "fst (transition_to_phase 50 ''u'' PHASE_COMPLETED example_session)"
    by (simp add: transition_to_phase_def Let_def example_session_def)
  have nh: "\<not> fst (transition_to_phase 50 ''u'' INITIALIZATION example_session)"
    by (simp add: transition_to_phase_def Let_def example_session_def)
  have e: "checkpoints example_session = []"
    by (simp add: example_session_def)
  have sn: "snapshot_agents (active_agents example_session)
      = [(''participant_agent'', (COMPLETED, 100, None)),
         (''scheduling_agent'', (ACTIVE, 40, Some ''optimize''))]"
    by (simp add: snapshot_agents_def example_session_def)
  have di: "distinct (map agent_name (active_agents example_session))"
    by (simp add: example_session_def)
  from checkpoints_append_only [of 50 "''u''" PHASE_COMPLETED example_session
      "[Pause_session 51 ''wait'']" "[Transition_to_phase 52 ''u'' PHASE_COMPLETED, Resume_session 53]"]
    h
  have a: "checkpoints (snd (transition_to_phase 50 ''u'' PHASE_COMPLETED example_session)) =
        checkpoints example_session @ [\<lparr>checkpoint_id = ''u'', phase = PHASE_COMPLETED,
          checkpoint_timestamp = 50, data_snapshot = workflow_data example_session,
          agent_states = snapshot_agents (active_agents example_session),
          decision_points = [Phase_transition (Some (current_phase example_session)) PHASE_COMPLETED]\<rparr>]"
    and b: "length (checkpoints (run_ops [Pause_session 51 ''wait''] example_session))
       \<le> length (checkpoints (run_ops ([Pause_session 51 ''wait'']
            @ [Transition_to_phase 52 ''u'' PHASE_COMPLETED, Resume_session 53]) example_session))"
    by blast+
  from checkpoints_append_only [of 50 "''u''" INITIALIZATION example_session "[]" "[]"] nh e
  have c: "checkpoints (snd (transition_to_phase 50 ''u'' INITIALIZATION example_session)) = []"
    by simp
  from a e sn have d: "checkpoints (snd (transition_to_phase 50 ''u'' PHASE_COMPLETED example_session))
      = [\<lparr>checkpoint_id = ''u'', phase = PHASE_COMPLETED,
          checkpoint_timestamp = 50, data_snapshot = workflow_data example_session,
          agent_states = [(''participant_agent'', (COMPLETED, 100, None)),
                          (''scheduling_agent'', (ACTIVE, 40, Some ''optimize''))],
          decision_points = [Phase_transition (Some (current_phase example_session)) PHASE_COMPLETED]\<rparr>]"
    by simp
  from h nh b c di show ?thesis unfolding d by simp
qed

subsection \<open>C10: completing an agent\<close>

text \<open>
  Claim C10. \<^verbatim>\<open>complete_agent(name, result)\<close> returns True exactly when some tracked
  instance with that name has status Active. Then the first such instance gets status
  Completed and progress 100, every other instance is untouched, and the name is appended
  to the completed agents. When no instance with that name is Active, it returns False and
  the session, with its agent list and its completed agents, is unchanged.
\<close>

theorem complete_agent_spec:
  "(fst (complete_agent now n r s) \<longleftrightarrow>
      (\<exists>a \<in> set (active_agents s). agent_name a = n \<and> status a = ACTIVE))
   \<and> ((\<exists>a \<in> set (active_agents s). agent_name a = n \<and> status a = ACTIVE) \<longrightarrow>
        (\<exists>i < length (active_agents s).
            agent_name (active_agents s ! i) = n \<and> status (active_agents s ! i) = ACTIVE
          \<and> (\<forall>j < i. \<not> (agent_name (active_agents s ! j) = n \<and> status (active_agents s ! j) = ACTIVE))
          \<and> length (active_agents (snd (complete_agent now n r s))) = length (active_agents s)
          \<and> (\<forall>k < length (active_agents s). k \<noteq> i \<longrightarrow>
                active_agents (snd (complete_agent now n r s)) ! k = active_agents s ! k)
          \<and> agent_name (active_agents (snd (complete_agent now n r s)) ! i) = n
          \<and> status (active_agents (snd (complete_agent now n r s)) ! i) = COMPLETED
          \<and> progress_percentage (active_agents (snd (complete_agent now n r s)) ! i) = 100)
        \<and> completed_agents (snd (complete_agent now n r s)) = completed_agents s @ [n])
   \<and> (\<not> (\<exists>a \<in> set (active_agents s). agent_name a = n \<and> status a = ACTIVE) \<longrightarrow>
        complete_agent now n r s = (False, s))"
proof -
  let ?P = "\<lambda>a. agent_name a = n \<and> status a = ACTIVE"
  let ?f = "\<lambda>a. a\<lparr>status := COMPLETED, completed_at := Some now, progress_percentage := 100,
                     result_data := (case r of
                                       Some d \<Rightarrow> if d \<noteq> [] then d else result_data a
                                     | None \<Rightarrow> result_data a)\<rparr>"
  show ?thesis
  proof (cases "update_first ?P ?f (active_agents s)")
    case None
    then have no: "\<forall>a \<in> set (active_agents s). \<not> ?P a"
      by (simp add: update_first_None)
    from None have "complete_agent now n r s = (False, s)"
      by (simp add: complete_agent_def)
    with no show ?thesis by auto
  next
    case (Some ys)
    from update_first_Some [OF Some] obtain i where i: "i < length (active_agents s)"
      "?P (active_agents s ! i)" "\<forall>j < i. \<not> ?P (active_agents s ! j)"
      "ys = (active_agents s)[i := ?f (active_agents s ! i)]" by blast
    from Some have res: "fst (complete_agent now n r s)"
      "active_agents (snd (complete_agent now n r s)) = ys"
      "completed_agents (snd (complete_agent now n r s)) = completed_agents s @ [n]"
      by (simp_all add: complete_agent_def update_timestamp_def log_activity_def Let_def)
    from i(1,2) have ex: "\<exists>a \<in> set (active_agents s). ?P a"
      using nth_mem by blast
    have "i < length (active_agents s) \<and> ?P (active_agents s ! i)
          \<and> (\<forall>j < i. \<not> ?P (active_agents s ! j))
          \<and> length ys = length (active_agents s)
          \<and> (\<forall>k < length (active_agents s). k \<noteq> i \<longrightarrow> ys ! k = active_agents s ! k)
          \<and> agent_name (ys ! i) = n \<and> status (ys ! i) = COMPLETED
          \<and> progress_percentage (ys ! i) = 100"
      using i by simp
    with res ex show ?thesis by auto
  qed
qed

theorem complete_agent_spec_witness:
  "fst (complete_agent 60 ''scheduling_agent'' None example_session)
   \<and> map status (active_agents (snd (complete_agent 60 ''scheduling_agent'' None example_session)))
       = [COMPLETED, COMPLETED]
   \<and> completed_agents (snd (complete_agent 60 ''scheduling_agent'' None example_session))
       = [''participant_agent'', ''scheduling_agent'']
   \<and> complete_agent 60 ''participant_agent'' None example_session = (False, example_session)"
proof -
  have e: "\<exists>a \<in> set (active_agents example_session).
             agent_name a = ''scheduling_agent'' \<and> status a = ACTIVE"
    by (simp add: example_session_def)
  have ne: "\<not> (\<exists>a \<in> set (active_agents example_session).
             agent_name a = ''participant_agent'' \<and> status a = ACTIVE)"
    by (simp add: example_session_def)
  have v: "map status (active_agents (snd (complete_agent 60 ''scheduling_agent'' None example_session)))
       = [COMPLETED, COMPLETED]"
    by (simp add: complete_agent_def example_session_def update_timestamp_def log_activity_def Let_def)
  from complete_agent_spec [of 60 "''scheduling_agent''" None example_session] e
  have a: "fst (complete_agent 60 ''scheduling_agent'' None example_session)"
    and c: "completed_agents (snd (complete_agent 60 ''scheduling_agent'' None example_session))
       = completed_agents example_session @ [''scheduling_agent'']"
    by blast+
  from complete_agent_spec [of 60 "''participant_agent''" None example_session] ne
  have b: "complete_agent 60 ''participant_agent'' None example_session = (False, example_session)"
    by blast
  have "completed_agents example_session = [''participant_agent'']"
    by (simp add: example_session_def)
  with a b c v show ?thesis by simp
qed


subsection \<open>C4: starting an agent behind its dependencies\<close>

lemma wf_managed_register_agent:
  "wf_managed ag \<Longrightarrow> wf_managed (register_agent uuid name ag)"
  unfolding wf_managed_def register_agent_def Let_def
  by (simp add: nth_append) (metis less_SucI)

lemma check_dependencies_satisfied:
  "(\<forall>d \<in> set deps. \<exists>j. m d = Some j \<and> status (agents ! j) = COMPLETED)
    \<Longrightarrow> check_dependencies m agents deps = Deps_satisfied"
  by (induction deps) auto

lemma check_dependencies_not_completed:
  "\<forall>d \<in> set deps. m d \<noteq> None \<Longrightarrow>
   \<exists>d \<in> set deps. \<exists>j. m d = Some j \<and> status (agents ! j) \<noteq> COMPLETED \<Longrightarrow>
   \<exists>d. check_dependencies m agents deps = Dep_not_completed d"
  by (induction deps) (auto split: option.splits)

lemma check_dependencies_first_unregistered:
  "\<forall>x \<in> set pre. \<exists>j. m x = Some j \<and> status (agents ! j) = COMPLETED \<Longrightarrow> m d = None \<Longrightarrow>
   check_dependencies m agents (pre @ d # post) = Dep_unregistered d"
  by (induction pre) auto

lemma check_dependencies_first_not_completed:
  "\<forall>x \<in> set pre. \<exists>j. m x = Some j \<and> status (agents ! j) = COMPLETED \<Longrightarrow>
   m d = Some j \<Longrightarrow> status (agents ! j) \<noteq> COMPLETED \<Longrightarrow>
   check_dependencies m agents (pre @ d # post) = Dep_not_completed d"
  by (induction pre) auto

lemma wf_example_coordinators:
  "wf_managed example_coordinator" "wf_managed ready_coordinator"
  "wf_managed calendar_coordinator"
  by (auto simp: wf_managed_def example_coordinator_def ready_coordinator_def
      calendar_coordinator_def tracked_instance_def split: if_splits)

text \<open>
  Claim C4, as the code has it by design. Take a registered agent. The dependency loop
  stops at the first declared dependency that is not both registered and Completed.
  \<^item> If that dependency is registered with a status other than Completed, and the session
    store accepts the write, \<^verbatim>\<open>_start_agent\<close> returns False and the agent's instance is
    Waiting afterwards. In particular this is so when all declared dependencies are
    registered and one of them is not Completed.
  \<^item> If that dependency is unregistered, \<^verbatim>\<open>_start_agent\<close> returns False and changes
    nothing: the agent is not marked Waiting.
  \<^item> If every declared dependency is Completed and the session tracks an Idle instance of
    that name, the start succeeds when the store accepts the write: the first such instance
    (the registered one when names are unique in the session) is Active with its start
    time stamped.
  \<^item> If every declared dependency is Completed and every instance of that name is already
    Active or Completed, the call returns False and changes nothing.
\<close>

theorem start_agent_by_dependencies:
  assumes wf: "wf_managed ag"
    and reg: "managed_agents ag name = Some i"
  shows "(\<forall>pre d post st.
            agent_dependencies name = pre @ d # post
          \<and> (\<forall>x \<in> set pre. dep_status ag x = Some COMPLETED)
          \<and> dep_status ag d = Some st \<and> st \<noteq> COMPLETED \<longrightarrow>
            fst (coord_start_agent now uuid True name task ag) = Inr False
          \<and> status (active_agents (coordination_session
                (snd (coord_start_agent now uuid True name task ag))) ! i) = WAITING)
    \<and> ((\<forall>d \<in> set (agent_dependencies name). dep_status ag d \<noteq> None)
        \<and> (\<exists>d \<in> set (agent_dependencies name). dep_status ag d \<noteq> Some COMPLETED) \<longrightarrow>
            fst (coord_start_agent now uuid True name task ag) = Inr False
          \<and> status (active_agents (coordination_session
                (snd (coord_start_agent now uuid True name task ag))) ! i) = WAITING)
    \<and> (\<forall>pre d post repo_ok.
            agent_dependencies name = pre @ d # post
          \<and> (\<forall>x \<in> set pre. dep_status ag x = Some COMPLETED)
          \<and> dep_status ag d = None \<longrightarrow>
            coord_start_agent now uuid repo_ok name task ag = (Inr False, ag))
    \<and> ((\<forall>d \<in> set (agent_dependencies name). dep_status ag d = Some COMPLETED)
        \<and> (\<exists>a \<in> set (active_agents (coordination_session ag)).
              agent_name a = name \<and> status a = IDLE) \<longrightarrow>
            fst (coord_start_agent now uuid True name task ag) = Inr True
          \<and> (\<exists>k < length (active_agents (coordination_session ag)).
                agent_name (active_agents (coordination_session ag) ! k) = name
              \<and> status (active_agents (coordination_session ag) ! k) = IDLE
              \<and> (\<forall>j < k. \<not> (agent_name (active_agents (coordination_session ag) ! j) = name
                            \<and> status (active_agents (coordination_session ag) ! j) = IDLE))
              \<and> (distinct (map agent_name (active_agents (coordination_session ag))) \<longrightarrow> k = i)
              \<and> status (active_agents (coordination_session
                    (snd (coord_start_agent now uuid True name task ag))) ! k) = ACTIVE
              \<and> started_at (active_agents (coordination_session
                    (snd (coord_start_agent now uuid True name task ag))) ! k) = Some now))
    \<and> ((\<forall>d \<in> set (agent_dependencies name). dep_status ag d = Some COMPLETED)
        \<and> (\<forall>a \<in> set (active_agents (coordination_session ag)).
              agent_name a = name \<longrightarrow> status a = ACTIVE \<or> status a = COMPLETED) \<longrightarrow>
            coord_start_agent now uuid True name task ag = (Inr False, ag))"
proof -
  let ?s = "coordination_session ag"
  let ?agents = "active_agents ?s"
  let ?m = "managed_agents ag"
  let ?deps = "agent_dependencies name"
  let ?P = "\<lambda>a. agent_name a = name \<and> status a = IDLE"
  let ?f = "\<lambda>a. a\<lparr>status := ACTIVE, started_at := Some now, last_heartbeat := Some now,
                     current_task := (if truthy_str task then task else current_task a)\<rparr>"
  let ?W = "fst (coord_start_agent now uuid True name task ag) = Inr False
          \<and> status (active_agents (coordination_session
                (snd (coord_start_agent now uuid True name task ag))) ! i) = WAITING"
  from wf reg have i: "i < length ?agents" "agent_name (?agents ! i) = name"
    by (auto simp: wf_managed_def)
  have completed: "\<exists>j. ?m x = Some j \<and> status (?agents ! j) = COMPLETED"
    if "dep_status ag x = Some COMPLETED" for x
    using that by (auto simp: dep_status_def split: option.splits)
  have waiting: ?W if "check_dependencies ?m ?agents ?deps = Dep_not_completed d" for d
    using that reg i by (simp add: coord_start_agent_def Let_def)
  have A: ?W
    if "?deps = pre @ d # post" "\<forall>x \<in> set pre. dep_status ag x = Some COMPLETED"
      "dep_status ag d = Some st" "st \<noteq> COMPLETED" for pre d post st
  proof -
    from that(2) completed
    have p: "\<forall>x \<in> set pre. \<exists>j. ?m x = Some j \<and> status (?agents ! j) = COMPLETED" by blast
    from that(3,4) obtain j where j: "?m d = Some j" "status (?agents ! j) \<noteq> COMPLETED"
      by (auto simp: dep_status_def split: option.splits)
    from check_dependencies_first_not_completed [OF p j, of post] that(1)
    have "check_dependencies ?m ?agents ?deps = Dep_not_completed d" by simp
    then show ?thesis by (rule waiting)
  qed
  have A': ?W
    if r: "\<forall>d \<in> set ?deps. dep_status ag d \<noteq> None"
      and n: "\<exists>d \<in> set ?deps. dep_status ag d \<noteq> Some COMPLETED"
  proof -
    from r have dreg: "\<forall>d \<in> set ?deps. ?m d \<noteq> None"
      by (auto simp: dep_status_def split: option.splits)
    from n dreg have "\<exists>d \<in> set ?deps. \<exists>j. ?m d = Some j \<and> status (?agents ! j) \<noteq> COMPLETED"
      by (fastforce simp: dep_status_def split: option.splits)
    from check_dependencies_not_completed [OF dreg this]
    obtain d where "check_dependencies ?m ?agents ?deps = Dep_not_completed d" by blast
    then show ?thesis by (rule waiting)
  qed
  have U: "coord_start_agent now uuid repo_ok name task ag = (Inr False, ag)"
    if "?deps = pre @ d # post" "\<forall>x \<in> set pre. dep_status ag x = Some COMPLETED"
      "dep_status ag d = None" for pre d post repo_ok
  proof -
    from that(2) completed
    have p: "\<forall>x \<in> set pre. \<exists>j. ?m x = Some j \<and> status (?agents ! j) = COMPLETED" by blast
    from that(3) have "?m d = None"
      by (simp add: dep_status_def split: option.splits)
    from check_dependencies_first_unregistered [OF p this, of post] that(1)
    have "check_dependencies ?m ?agents ?deps = Dep_unregistered d" by simp
    with reg show ?thesis by (simp add: coord_start_agent_def Let_def)
  qed
  have sat: "check_dependencies ?m ?agents ?deps = Deps_satisfied"
    if "\<forall>d \<in> set ?deps. dep_status ag d = Some COMPLETED"
  proof (rule check_dependencies_satisfied)
    from that completed
    show "\<forall>d \<in> set ?deps. \<exists>j. ?m d = Some j \<and> status (?agents ! j) = COMPLETED" by blast
  qed
  have B: "fst (coord_start_agent now uuid True name task ag) = Inr True
          \<and> (\<exists>k < length ?agents. ?P (?agents ! k) \<and> (\<forall>j < k. \<not> ?P (?agents ! j))
              \<and> (distinct (map agent_name ?agents) \<longrightarrow> k = i)
              \<and> status (active_agents (coordination_session
                    (snd (coord_start_agent now uuid True name task ag))) ! k) = ACTIVE
              \<and> started_at (active_agents (coordination_session
                    (snd (coord_start_agent now uuid True name task ag))) ! k) = Some now)"
    if c: "\<forall>d \<in> set ?deps. dep_status ag d = Some COMPLETED"
      and e: "\<exists>a \<in> set ?agents. ?P a"
  proof -
    from e have "update_first ?P ?f ?agents \<noteq> None"
      by (simp add: update_first_None)
    then obtain ys where ys: "update_first ?P ?f ?agents = Some ys" by blast
    from update_first_Some [OF ys] obtain k where k: "k < length ?agents" "?P (?agents ! k)"
      "\<forall>j < k. \<not> ?P (?agents ! j)" "ys = ?agents[k := ?f (?agents ! k)]" by blast
    have ki: "k = i" if "distinct (map agent_name ?agents)"
    proof -
      from k(1,2) i have "map agent_name ?agents ! k = map agent_name ?agents ! i" by simp
      moreover from k(1) i(1) have "k < length (map agent_name ?agents)"
        "i < length (map agent_name ?agents)" by simp_all
      ultimately show ?thesis
        using that nth_eq_iff_index_eq by blast
    qed
    from ys have st: "start_agent now name task ?s = (True, update_timestamp now
             (log_activity now (Agent_started name (if truthy_str task then task else None))
                (?s\<lparr>active_agents := ys\<rparr>)))"
      by (simp add: start_agent_def)
    have r: "fst (coord_start_agent now uuid True name task ag) = Inr True"
      "active_agents (coordination_session (snd (coord_start_agent now uuid True name task ag))) = ys"
      using reg sat [OF c] st
      by (simp_all add: coord_start_agent_def Let_def update_timestamp_def log_activity_def)
    from k have "status (ys ! k) = ACTIVE" "started_at (ys ! k) = Some now" by simp_all
    with r k ki show ?thesis by auto
  qed
  have C: "coord_start_agent now uuid True name task ag = (Inr False, ag)"
    if c: "\<forall>d \<in> set ?deps. dep_status ag d = Some COMPLETED"
      and e: "\<forall>a \<in> set ?agents. agent_name a = name \<longrightarrow> status a = ACTIVE \<or> status a = COMPLETED"
  proof -
    from e have "\<forall>a \<in> set ?agents. \<not> ?P a" by auto
    then have "update_first ?P ?f ?agents = None"
      by (simp add: update_first_None)
    then have "start_agent now name task ?s = (False, ?s)"
      by (simp add: start_agent_def)
    with reg sat [OF c] show ?thesis
      by (simp add: coord_start_agent_def Let_def)
  qed
  from A A' U B C show ?thesis by blast
qed

theorem start_agent_by_dependencies_witness:
  "wf_managed example_coordinator
   \<and> managed_agents example_coordinator ''venue_agent'' = Some 2
   \<and> agent_dependencies ''venue_agent'' = [] @ ''scheduling_agent'' # []
   \<and> dep_status example_coordinator ''scheduling_agent'' = Some ACTIVE
   \<and> fst (coord_start_agent 100 ''m1'' True ''venue_agent'' None example_coordinator) = Inr False
   \<and> status (active_agents (coordination_session
        (snd (coord_start_agent 100 ''m1'' True ''venue_agent'' None example_coordinator))) ! 2)
       = WAITING
   \<and> wf_managed calendar_coordinator
   \<and> managed_agents calendar_coordinator ''calendar_agent'' = Some 1
   \<and> agent_dependencies ''calendar_agent'' = [] @ ''scheduling_agent'' # [''venue_agent'']
   \<and> dep_status calendar_coordinator ''scheduling_agent'' = None
   \<and> coord_start_agent 100 ''m1'' True ''calendar_agent'' None calendar_coordinator
       = (Inr False, calendar_coordinator)
   \<and> wf_managed ready_coordinator
   \<and> managed_agents ready_coordinator ''scheduling_agent'' = Some 1
   \<and> dep_status ready_coordinator ''participant_agent'' = Some COMPLETED
   \<and> fst (coord_start_agent 100 ''m1'' True ''scheduling_agent'' None ready_coordinator) = Inr True
   \<and> map status (active_agents (coordination_session
        (snd (coord_start_agent 100 ''m1'' True ''scheduling_agent'' None ready_coordinator))))
       = [COMPLETED, ACTIVE]
   \<and> managed_agents example_coordinator ''scheduling_agent'' = Some 1
   \<and> dep_status example_coordinator ''participant_agent'' = Some COMPLETED
   \<and> coord_start_agent 100 ''m1'' True ''scheduling_agent'' None example_coordinator
       = (Inr False, example_coordinator)"
proof -
  have r1: "managed_agents example_coordinator ''venue_agent'' = Some 2"
    by (simp add: example_coordinator_def)
  have d1: "agent_dependencies ''venue_agent'' = [] @ ''scheduling_agent'' # []"
    by (simp add: agent_dependencies_def)
  have s1: "dep_status example_coordinator ''scheduling_agent'' = Some ACTIVE"
    by (simp add: dep_status_def example_coordinator_def tracked_instance_def)
  have r2: "managed_agents ready_coordinator ''scheduling_agent'' = Some 1"
    by (simp add: ready_coordinator_def)
  have d2: "agent_dependencies ''scheduling_agent'' = [''participant_agent'']"
    by (simp add: agent_dependencies_def)
  have s2: "dep_status ready_coordinator ''participant_agent'' = Some COMPLETED"
    by (simp add: dep_status_def ready_coordinator_def tracked_instance_def)
  have i2: "\<exists>a \<in> set (active_agents (coordination_session ready_coordinator)).
              agent_name a = ''scheduling_agent'' \<and> status a = IDLE"
    by (simp add: ready_coordinator_def tracked_instance_def)
  have v: "map status (active_agents (coordination_session
        (snd (coord_start_agent 100 ''m1'' True ''scheduling_agent'' None ready_coordinator))))
       = [COMPLETED, ACTIVE]"
    by (simp add: coord_start_agent_def ready_coordinator_def tracked_instance_def
        agent_dependencies_def start_agent_def update_timestamp_def log_activity_def Let_def)
  have r3: "managed_agents calendar_coordinator ''calendar_agent'' = Some 1"
    by (simp add: calendar_coordinator_def)
  have d3: "agent_dependencies ''calendar_agent'' = [] @ ''scheduling_agent'' # [''venue_agent'']"
    by (simp add: agent_dependencies_def)
  have s3: "dep_status calendar_coordinator ''scheduling_agent'' = None"
    by (simp add: dep_status_def calendar_coordinator_def)
  have r4: "managed_agents example_coordinator ''scheduling_agent'' = Some 1"
    by (simp add: example_coordinator_def)
  have s4: "dep_status example_coordinator ''participant_agent'' = Some COMPLETED"
    by (simp add: dep_status_def example_coordinator_def tracked_instance_def)
  have i4: "\<forall>a \<in> set (active_agents (coordination_session example_coordinator)).
      agent_name a = ''scheduling_agent'' \<longrightarrow> status a = ACTIVE \<or> status a = COMPLETED"
    by (simp add: example_coordinator_def tracked_instance_def)
  have d: "ACTIVE \<noteq> COMPLETED" by simp
  from start_agent_by_dependencies [OF wf_example_coordinators(1) r1, of 100 "''m1''" None] d1 s1 d
  have a: "fst (coord_start_agent 100 ''m1'' True ''venue_agent'' None example_coordinator) = Inr False
    \<and> status (active_agents (coordination_session
        (snd (coord_start_agent 100 ''m1'' True ''venue_agent'' None example_coordinator))) ! 2)
       = WAITING"
    by (metis empty_iff empty_set)
  from start_agent_by_dependencies [OF wf_example_coordinators(2) r2, of 100 "''m1''" None] d2 s2 i2
  have b: "fst (coord_start_agent 100 ''m1'' True ''scheduling_agent'' None ready_coordinator) = Inr True"
    by simp
  from start_agent_by_dependencies [OF wf_example_coordinators(3) r3, of 100 "''m1''" None] d3 s3
  have c: "coord_start_agent 100 ''m1'' True ''calendar_agent'' None calendar_coordinator
       = (Inr False, calendar_coordinator)"
    by (metis empty_iff empty_set)
  from start_agent_by_dependencies [OF wf_example_coordinators(1) r4, of 100 "''m1''" None] d2 s4 i4
  have e: "coord_start_agent 100 ''m1'' True ''scheduling_agent'' None example_coordinator
       = (Inr False, example_coordinator)"
    by simp
  from a b c e v r1 r2 r3 r4 d1 d3 s1 s2 s3 s4 wf_example_coordinators show ?thesis by simp
qed

text \<open>
  Claim C4 as stated fails in two ways. The calendar agent, registered and Idle, its first
  declared dependency unregistered and its second one Active: a declared dependency has a
  status other than Completed, yet the start fails without marking the agent, which stays
  Idle. The scheduling agent, registered and already Active, its only declared dependency
  Completed: the start does not succeed.
\<close>

theorem start_agent_counterexample:
  "managed_agents calendar_coordinator ''calendar_agent'' = Some 1
   \<and> agent_dependencies ''calendar_agent'' = [''scheduling_agent'', ''venue_agent'']
   \<and> dep_status calendar_coordinator ''venue_agent'' = Some ACTIVE
   \<and> coord_start_agent 100 ''m1'' True ''calendar_agent'' None calendar_coordinator
       = (Inr False, calendar_coordinator)
   \<and> status (active_agents (coordination_session calendar_coordinator) ! 1) = IDLE
   \<and> managed_agents example_coordinator ''scheduling_agent'' = Some 1
   \<and> agent_dependencies ''scheduling_agent'' = [''participant_agent'']
   \<and> dep_status example_coordinator ''participant_agent'' = Some COMPLETED
   \<and> fst (coord_start_agent 100 ''m1'' True ''scheduling_agent'' None example_coordinator)
       = Inr False"
  by (simp add: coord_start_agent_def example_coordinator_def calendar_coordinator_def
      tracked_instance_def agent_dependencies_def dep_status_def start_agent_def Let_def)

subsection \<open>C3: an expired message is dropped\<close>

text \<open>
  Claim C3. For every message whose \<^verbatim>\<open>expires_at\<close> is set and lies before the current
  time, \<^verbatim>\<open>handle_message\<close> returns no response and leaves the agent as it was: no
  handler is invoked, whatever handlers are registered and whatever they would do, and the
  receive counter is not incremented.
\<close>

theorem expired_message_dropped:
  assumes "expires_at m = Some e" and "e < now"
  shows "handle_message now run m ag = (None, ag)
    \<and> fst (handle_message now run m ag) = None
    \<and> invoked (snd (handle_message now run m ag)) = invoked ag
    \<and> messages_received (metrics (snd (handle_message now run m ag)))
        = messages_received (metrics ag)"
  using assms by (simp add: handle_message_def is_expired_def)

theorem expired_message_dropped_witness:
  "expires_at expired_message = Some 500 \<and> (500::int) < 501
   \<and> handle_message 501 example_run expired_message example_agent = (None, example_agent)
   \<and> invoked (snd (handle_message 500 example_run expired_message example_agent))
        = [(1, expired_message)]
   \<and> messages_received (metrics (snd (handle_message 500 example_run expired_message example_agent)))
        = 1"
proof -
  have h: "expires_at expired_message = Some 500"
    by (simp add: expired_message_def)
  have l: "(500::int) < 501" by simp
  have live: "invoked (snd (handle_message 500 example_run expired_message example_agent))
        = [(1, expired_message)]
   \<and> messages_received (metrics (snd (handle_message 500 example_run expired_message example_agent)))
        = 1"
    by (simp add: handle_message_def is_expired_def expired_message_def example_message_def
        example_agent_def example_run_def example_metrics_def record_message_received_def
        record_processing_time_def Let_def)
  from expired_message_dropped [OF h l, of example_run example_agent] h l live
  show ?thesis by simp
qed

subsection \<open>C9: stamping and buffering in send\<close>

text \<open>
  Claim C9, as the code has it. \<^verbatim>\<open>send_message\<close> always sets the sender id to the
  agent's own id. It leaves a non-empty event id and a non-empty session id of the message
  unchanged, and fills an absent one from the agent's when the agent has one. When no bus
  is attached, the stamped message is appended to the pending queue and nothing is
  published.
\<close>

theorem send_message_stamps:
  "sender_id (fst (send_message now ok m ag)) = self_agent_id ag
   \<and> (truthy_str (event_id m) \<longrightarrow> event_id (fst (send_message now ok m ag)) = event_id m)
   \<and> (truthy_str (session_id_of m) \<longrightarrow>
        session_id_of (fst (send_message now ok m ag)) = session_id_of m)
   \<and> (\<not> truthy_str (event_id m) \<and> truthy_str (self_event_id ag) \<longrightarrow>
        event_id (fst (send_message now ok m ag)) = self_event_id ag)
   \<and> (\<not> truthy_str (session_id_of m) \<and> truthy_str (self_session_id ag) \<longrightarrow>
        session_id_of (fst (send_message now ok m ag)) = self_session_id ag)
   \<and> (message_bus ag = None \<longrightarrow>
        pending_messages (snd (send_message now ok m ag))
          = pending_messages ag @ [fst (send_message now ok m ag)]
        \<and> message_bus (snd (send_message now ok m ag)) = None)"
  by (cases "message_bus ag") (simp_all add: send_message_def stamp_def Let_def)

theorem send_message_stamps_witness:
  "truthy_str (event_id example_message) \<and> \<not> truthy_str (session_id_of example_message)
   \<and> truthy_str (self_session_id example_agent) \<and> message_bus example_agent = None
   \<and> fst (send_message 100 True example_message example_agent)
       = example_message\<lparr>sender_id := ''venue_agent_e1'', session_id_of := Some ''s1''\<rparr>
   \<and> pending_messages (snd (send_message 100 True example_message example_agent))
       = [example_message\<lparr>sender_id := ''venue_agent_e1'', session_id_of := Some ''s1''\<rparr>]"
proof -
  have v: "fst (send_message 100 True example_message example_agent)
       = example_message\<lparr>sender_id := ''venue_agent_e1'', session_id_of := Some ''s1''\<rparr>"
    by (simp add: send_message_def stamp_def example_message_def example_agent_def Let_def)
  have h: "truthy_str (event_id example_message)" "\<not> truthy_str (session_id_of example_message)"
    "truthy_str (self_session_id example_agent)" "message_bus example_agent = None"
    "pending_messages example_agent = []"
    by (simp_all add: example_message_def example_agent_def)
  from send_message_stamps [of 100 True example_message example_agent] h v
  show ?thesis by simp
qed

text \<open>
  Claim C9 as stated fails for the sender id: a message that carries the non-empty sender
  id of the coordinator leaves \<^verbatim>\<open>send_message\<close> with the id of the sending agent.
\<close>

theorem send_message_sender_counterexample:
  "sender_id example_message \<noteq> []
   \<and> sender_id (fst (send_message 100 True example_message example_agent))
       \<noteq> sender_id example_message"
  by (simp add: send_message_def stamp_def example_message_def example_agent_def Let_def)

subsection \<open>C7: the manual fallback\<close>

lemma run_sources_frame [simp]:
  "search_criteria (run_sources now outcome apis ag) = search_criteria ag"
  "agent_event_id (run_sources now outcome apis ag) = agent_event_id ag"
  by (induction apis arbitrary: ag)
     (simp_all add: record_api_failure_def split: source_outcome.splits option.splits)

lemma collect_results_frame [simp]:
  "search_criteria (snd (collect_results now outcome apis (acc, ag))) = search_criteria ag"
  "agent_event_id (snd (collect_results now outcome apis (acc, ag))) = agent_event_id ag"
  by (induction apis arbitrary: acc ag)
     (simp_all add: record_api_failure_def split: source_outcome.splits)

lemma collect_results_fst:
  "fst (collect_results now outcome apis (acc, ag)) =
     acc @ concat (map (\<lambda>api. case outcome api of
                          Source_returned results caught \<Rightarrow> results
                        | Source_raised e \<Rightarrow> []) apis)"
  by (induction apis arbitrary: acc ag) (simp_all split: source_outcome.splits)

lemma calculate_suitability_score_Inr:
  "capacity v \<noteq> 0 \<Longrightarrow> \<exists>base. calculate_suitability_score lower v pc b fs = Inr base"
  by (simp add: calculate_suitability_score_def capacity_score_def Let_def)

lemma fallback_results_Inr:
  assumes "\<forall>v \<in> set vs. capacity v \<noteq> 0"
  shows "\<exists>rs. fallback_results lower c vs = Inr rs \<and> map venue rs = vs
    \<and> (\<forall>r \<in> set rs. source_api r = ''manual_fallback''
          \<and> result_notes r = [note_manual_confirmation, note_fallback_candidate]
          \<and> booking_required r
          \<and> (\<exists>base. calculate_suitability_score lower (venue r) (participant_count c)
                        (budget_per_person c) (Some (required_features c)) = Inr base
                \<and> suitability_score r = base * (7 / 10)))"
  using assms
proof (induction vs)
  case Nil
  show ?case by simp
next
  case (Cons v vs)
  then obtain rs where rs: "fallback_results lower c vs = Inr rs" "map venue rs = vs"
    "\<forall>r \<in> set rs. source_api r = ''manual_fallback''
          \<and> result_notes r = [note_manual_confirmation, note_fallback_candidate]
          \<and> booking_required r
          \<and> (\<exists>base. calculate_suitability_score lower (venue r) (participant_count c)
                        (budget_per_person c) (Some (required_features c)) = Inr base
                \<and> suitability_score r = base * (7 / 10))"
    by auto
  from Cons.prems have "capacity v \<noteq> 0" by simp
  from calculate_suitability_score_Inr [OF this]
  obtain base where base: "calculate_suitability_score lower v (participant_count c)
      (budget_per_person c) (Some (required_features c)) = Inr base" by blast
  from rs base show ?case by simp
qed

lemma example_tasks:
  "search_tasks 400000000 example_venue_agent = [''gurume'']"
  by (simp add: search_tasks_def should_use_api_def recent_failures_def example_venue_agent_def
      example_failure_def)

text \<open>
  Claim C7. Whenever the sources that were queried return nothing between them (each was
  skipped, raised, or returned an empty list), \<^verbatim>\<open>_search_venues\<close> returns exactly the
  results built from the fixed fallback venues, in their order: meeting room A (capacity 20,
  2000 per person) and cafe B (capacity 15, 1500 per person). Each result names the source
  "manual_fallback", its venue has booking status "manual required" and carries the
  administrator's note, its notes say that manual confirmation is needed, and its
  suitability score is 0.7 times the score \<^verbatim>\<open>calculate_suitability_score\<close> gives the
  venue for the criteria of the search. The search criteria are set, as they are after the
  agent's initialisation.
\<close>

theorem fallback_when_sources_empty:
  assumes "merged_results now outcome ag = []" and "search_criteria ag = Some c"
  shows "\<exists>rs. fst (search_venues now lower uuid1 uuid2 outcome ag) = Inr rs
    \<and> search_results (snd (search_venues now lower uuid1 uuid2 outcome ag)) = rs
    \<and> map venue rs = fallback_venues uuid1 uuid2 (agent_event_id ag)
    \<and> map (venue_name \<circ> venue) rs = [fallback_name_A, fallback_name_B]
    \<and> map (venue_address \<circ> venue) rs = [fallback_address_A, fallback_address_B]
    \<and> map (venue_type \<circ> venue) rs = [MEETING_ROOM, RESTAURANT]
    \<and> map (capacity \<circ> venue) rs = [20, 15]
    \<and> map (estimated_cost_per_person \<circ> venue) rs = [Some 2000, Some 1500]
    \<and> (\<forall>r \<in> set rs. source_api r = ''manual_fallback''
          \<and> booking_status (venue r) = MANUAL_REQUIRED
          \<and> admin_notes (venue r) = Some fallback_admin_note
          \<and> result_notes r = [note_manual_confirmation, note_fallback_candidate]
          \<and> (\<exists>base. calculate_suitability_score lower (venue r) (participant_count c)
                        (budget_per_person c) (Some (required_features c)) = Inr base
                \<and> suitability_score r = base * (7 / 10)))"
proof -
  let ?tasks = "search_tasks now ag"
  let ?ag1 = "run_sources now outcome ?tasks ag"
  let ?col = "collect_results now outcome ?tasks ([], ?ag1)"
  let ?vs = "fallback_venues uuid1 uuid2 (agent_event_id ag)"
  from assms(1) have empty: "fst ?col = []"
    by (simp add: collect_results_fst merged_results_def)
  have caps: "\<forall>v \<in> set ?vs. capacity v \<noteq> 0"
    by (simp add: fallback_venues_def fallback_venue_def)
  from fallback_results_Inr [OF caps, of lower c]
  obtain rs where rs: "fallback_results lower c ?vs = Inr rs" "map venue rs = ?vs"
    "\<forall>r \<in> set rs. source_api r = ''manual_fallback''
          \<and> result_notes r = [note_manual_confirmation, note_fallback_candidate]
          \<and> booking_required r
          \<and> (\<exists>base. calculate_suitability_score lower (venue r) (participant_count c)
                        (budget_per_person c) (Some (required_features c)) = Inr base
                \<and> suitability_score r = base * (7 / 10))"
    by blast
  have fb: "fallback_search lower uuid1 uuid2 (snd ?col) = Inr rs"
    using assms(2) rs(1) by (simp add: fallback_search_def)
  have res: "search_venues now lower uuid1 uuid2 outcome ag
      = (Inr rs, (snd ?col)\<lparr>search_results := rs\<rparr>)"
  proof -
    obtain xs ag2 where col: "?col = (xs, ag2)" by (cases ?col)
    with empty fb have "xs = []" "fallback_search lower uuid1 uuid2 ag2 = Inr rs" by simp_all
    with col show ?thesis by (simp add: search_venues_def Let_def)
  qed
  have flags: "\<forall>r \<in> set rs. booking_status (venue r) = MANUAL_REQUIRED
      \<and> admin_notes (venue r) = Some fallback_admin_note"
  proof
    fix r assume "r \<in> set rs"
    then have "venue r \<in> set (map venue rs)" by simp
    with rs(2) have "venue r \<in> set ?vs" by simp
    then show "booking_status (venue r) = MANUAL_REQUIRED
      \<and> admin_notes (venue r) = Some fallback_admin_note"
      by (auto simp: fallback_venues_def fallback_venue_def)
  qed
  from rs(2) have lits: "map (venue_name \<circ> venue) rs = [fallback_name_A, fallback_name_B]"
    "map (venue_address \<circ> venue) rs = [fallback_address_A, fallback_address_B]"
    "map (venue_type \<circ> venue) rs = [MEETING_ROOM, RESTAURANT]"
    "map (capacity \<circ> venue) rs = [20, 15]"
    "map (estimated_cost_per_person \<circ> venue) rs = [Some 2000, Some 1500]"
    by (auto simp: fallback_venues_def fallback_venue_def)
  from res rs flags lits show ?thesis by auto
qed


theorem fallback_when_sources_empty_witness:
  "merged_results 400000000 example_outcome example_venue_agent = []
   \<and> search_criteria example_venue_agent = Some example_criteria
   \<and> (\<exists>rs. fst (search_venues 400000000 id ''v1'' ''v2'' example_outcome example_venue_agent) = Inr rs
        \<and> map venue rs = fallback_venues ''v1'' ''v2'' ''e1''
        \<and> map suitability_score rs = [69 / 200, 227 / 600])"
proof -
  have m: "merged_results 400000000 example_outcome example_venue_agent = []"
    by (simp add: merged_results_def example_tasks example_outcome_def)
  have c: "search_criteria example_venue_agent = Some example_criteria"
    by (simp add: example_venue_agent_def)
  have e: "agent_event_id example_venue_agent = ''e1''"
    by (simp add: example_venue_agent_def)
  from fallback_when_sources_empty [OF m c, of id "''v1''" "''v2''"] e
  obtain rs where rs:
    "fst (search_venues 400000000 id ''v1'' ''v2'' example_outcome example_venue_agent) = Inr rs"
    "map venue rs = fallback_venues ''v1'' ''v2'' ''e1''"
    "\<forall>r \<in> set rs. \<exists>base. calculate_suitability_score id (venue r)
          (participant_count example_criteria) (budget_per_person example_criteria)
          (Some (required_features example_criteria)) = Inr base
        \<and> suitability_score r = base * (7 / 10)"
    by auto
  from rs(2) obtain r1 r2 where r: "rs = [r1, r2]"
    "venue r1 = fallback_venue ''v1'' ''e1'' fallback_name_A fallback_address_A MEETING_ROOM 20 2000"
    "venue r2 = fallback_venue ''v2'' ''e1'' fallback_name_B fallback_address_B RESTAURANT 15 1500"
    by (auto simp: fallback_venues_def)
  have s1: "calculate_suitability_score id
      (fallback_venue ''v1'' ''e1'' fallback_name_A fallback_address_A MEETING_ROOM 20 2000)
      (participant_count example_criteria) (budget_per_person example_criteria)
      (Some (required_features example_criteria)) = Inr (69 / 140)"
    by (simp add: calculate_suitability_score_def capacity_score_def budget_score_def
        feature_score_def rating_score_def has_feature_def fallback_venue_def
        example_criteria_def Let_def)
  have s2: "calculate_suitability_score id
      (fallback_venue ''v2'' ''e1'' fallback_name_B fallback_address_B RESTAURANT 15 1500)
      (participant_count example_criteria) (budget_per_person example_criteria)
      (Some (required_features example_criteria)) = Inr (227 / 420)"
    by (simp add: calculate_suitability_score_def capacity_score_def budget_score_def
        feature_score_def rating_score_def has_feature_def fallback_venue_def
        example_criteria_def Let_def)
  from rs(3) r(1,2) s1 have "suitability_score r1 = (69 / 140) * (7 / 10)" by auto
  moreover from rs(3) r(1,3) s2 have "suitability_score r2 = (227 / 420) * (7 / 10)" by auto
  ultimately have "map suitability_score rs = [69 / 200, 227 / 600]"
    using r(1) by simp
  with rs(1,2) have "\<exists>rs. fst (search_venues 400000000 id ''v1'' ''v2'' example_outcome example_venue_agent) = Inr rs
        \<and> map venue rs = fallback_venues ''v1'' ''v2'' ''e1''
        \<and> map suitability_score rs = [69 / 200, 227 / 600]"
    by (intro exI [of _ rs]) simp
  with m c show ?thesis by simp
qed

subsection \<open>C8: a source that keeps failing is skipped\<close>

lemma length_filter_mono:
  "(\<And>x. P x \<Longrightarrow> Q x) \<Longrightarrow> length (filter P xs) \<le> length (filter Q xs)"
  by (induction xs) auto

lemma search_tasks_iff:
  "api \<in> set (search_tasks now ag) \<longleftrightarrow>
     (api = ''google_places'' \<or> api = ''gurume'') \<and> should_use_api now api ag"
  by (auto simp: search_tasks_def)

text \<open>
  Claim C8. For every source name and every search round: if at least three failure records
  of that source are less than 300 seconds old, \<^verbatim>\<open>_should_use_api\<close> answers False and
  the source is not among the tasks of the round; the Gurume source is likewise ineligible
  when the settings of the event type give it no category; and each of the two sources is
  among the tasks of the round exactly when it is eligible, so an eligible source is
  queried whatever the state of the other.
\<close>

theorem failing_source_skipped:
  "(3 \<le> length (filter (\<lambda>f. api_name f = api \<and> failure_time f \<le> now
                              \<and> now - failure_time f < 300000000) (api_failures ag))
      \<longrightarrow> \<not> should_use_api now api ag \<and> api \<notin> set (search_tasks now ag))
   \<and> (gurume_categories (current_event_type ag) = []
      \<longrightarrow> \<not> should_use_api now ''gurume'' ag \<and> ''gurume'' \<notin> set (search_tasks now ag))
   \<and> (\<forall>other \<in> {''google_places'', ''gurume''}.
        other \<in> set (search_tasks now ag) \<longleftrightarrow> should_use_api now other ag)"
proof -
  have a: "\<not> should_use_api now api ag"
    if "3 \<le> length (filter (\<lambda>f. api_name f = api \<and> failure_time f \<le> now
                              \<and> now - failure_time f < 300000000) (api_failures ag))"
  proof -
    have "length (filter (\<lambda>f. api_name f = api \<and> failure_time f \<le> now
                              \<and> now - failure_time f < 300000000) (api_failures ag))
        \<le> length (recent_failures now api ag)"
      unfolding recent_failures_def by (rule length_filter_mono) simp
    with that have "3 \<le> length (recent_failures now api ag)" by simp
    then show ?thesis by (simp add: should_use_api_def)
  qed
  have b: "\<not> should_use_api now ''gurume'' ag" if "gurume_categories (current_event_type ag) = []"
    using that by (simp add: should_use_api_def)
  from a b show ?thesis by (auto simp: search_tasks_iff)
qed

theorem failing_source_skipped_witness:
  "3 \<le> length (filter (\<lambda>f. api_name f = ''google_places'' \<and> failure_time f \<le> 400000000
                              \<and> 400000000 - failure_time f < 300000000)
                  (api_failures example_venue_agent))
   \<and> \<not> should_use_api 400000000 ''google_places'' example_venue_agent
   \<and> should_use_api 400000000 ''gurume'' example_venue_agent
   \<and> search_tasks 400000000 example_venue_agent = [''gurume'']
   \<and> should_use_api 450000000 ''google_places'' example_venue_agent
   \<and> gurume_categories (current_event_type (example_venue_agent\<lparr>current_event_type := STUDY\<rparr>)) = []
   \<and> ''gurume'' \<notin> set (search_tasks 400000000 (example_venue_agent\<lparr>current_event_type := STUDY\<rparr>))"
proof -
  have h: "3 \<le> length (filter (\<lambda>f. api_name f = ''google_places'' \<and> failure_time f \<le> 400000000
                              \<and> 400000000 - failure_time f < 300000000)
                  (api_failures example_venue_agent))"
    by (simp add: example_venue_agent_def example_failure_def)
  have g: "gurume_categories (current_event_type (example_venue_agent\<lparr>current_event_type := STUDY\<rparr>)) = []"
    by simp
  have u: "should_use_api 400000000 ''gurume'' example_venue_agent"
    by (simp add: should_use_api_def recent_failures_def example_venue_agent_def example_failure_def)
  from failing_source_skipped [of "''google_places''" 400000000 example_venue_agent] h
  have a: "\<not> should_use_api 400000000 ''google_places'' example_venue_agent" by blast
  from failing_source_skipped [of api 400000000 "example_venue_agent\<lparr>current_event_type := STUDY\<rparr>"] g
  have b: "''gurume'' \<notin> set (search_tasks 400000000 (example_venue_agent\<lparr>current_event_type := STUDY\<rparr>))"
    by blast
  have bd: "should_use_api 450000000 ''google_places'' example_venue_agent"
    by (simp add: should_use_api_def recent_failures_def example_venue_agent_def example_failure_def)
  from h g u a b bd example_tasks show ?thesis by simp
qed


end
